theory Spec2Isabelle
  imports Complex_Main "HOL-Library.Word"
begin

unbundle bit_operations_syntax

section \<open>C values\<close>

text \<open>
  The file \<open>src/develop/imageop_gui.c\<close> works on three kinds of four-byte fields of a
  module's parameter block: \<open>float\<close>, \<open>int\<close> (also enumerations) and \<open>gboolean\<close>
  (GLib's \<open>typedef gint gboolean\<close>). A field in memory is its 32 bits; which type a read
  or a write gives them is decided by the pointer type of the access, as in C.
\<close>

type_synonym cint = "32 word"
type_synonym gboolean = "32 word"

text \<open>
  The value of a C \<open>float\<close> or \<open>double\<close>: a finite number, an infinity or a NaN. The
  sign of a zero is not kept; no operation of the file tells the two zeros apart.
\<close>

datatype cfloat = Finite real | PInf | NInf | NaN

text \<open>
  IEEE 754 rounding in the default mode, to nearest with ties to even: \<open>round_to p emin\<close>
  gives the nearest number with a significand of \<open>p\<close> bits and an exponent of at least
  \<open>emin\<close> (subnormal below), and \<open>ieee_round\<close> replaces a result beyond the
  largest finite number by the infinity. Every arithmetic operation is rounded to the
  format of its C type (\<open>FLT_EVAL_METHOD\<close> 0): binary32 for \<open>float\<close>, binary64 for
  \<open>double\<close>.
\<close>

definition round_half_even :: "real \<Rightarrow> int" where
  "round_half_even q =
     (let n = \<lfloor>q\<rfloor>; r = q - of_int n
      in if r < 1 / 2 then n else if 1 / 2 < r then n + 1
         else if even n then n else n + 1)"

definition round_to :: "nat \<Rightarrow> int \<Rightarrow> real \<Rightarrow> real" where
  "round_to p emin x =
     (if x = 0 then 0
      else
        let e = max \<lfloor>log 2 \<bar>x\<bar>\<rfloor> emin;
            u = 2 powi (e - int p + 1)
        in sgn x * of_int (round_half_even (\<bar>x\<bar> / u)) * u)"

definition ieee_round :: "nat \<Rightarrow> int \<Rightarrow> int \<Rightarrow> real \<Rightarrow> cfloat" where
  "ieee_round p emin emax x =
     (let v = round_to p emin x
      in if 2 powi (emax + 1) \<le> \<bar>v\<bar> then (if 0 < v then PInf else NInf) else Finite v)"

definition to_float :: "real \<Rightarrow> cfloat" where
  "to_float x = ieee_round 24 (- 126) 127 x"

definition to_double :: "real \<Rightarrow> cfloat" where
  "to_double x = ieee_round 53 (- 1022) 1023 x"

text \<open>The value of the 32 bits of a \<open>float\<close> (IEEE 754 binary32); this decoding is exact.\<close>

definition float_of_bits :: "32 word \<Rightarrow> cfloat" where
  "float_of_bits w =
     (let s = bit w 31;
          e = unat (take_bit 8 (drop_bit 23 w));
          m = unat (take_bit 23 w);
          sg = (if s then - 1 else 1 :: real)
      in if e = 255 then (if m = 0 then (if s then NInf else PInf) else NaN)
         else if e = 0 then Finite (sg * real m / 2 ^ 149)
         else if 150 \<le> e then Finite (sg * real (2 ^ 23 + m) * 2 ^ (e - 150))
         else Finite (sg * real (2 ^ 23 + m) / 2 ^ (150 - e)))"

text \<open>The comparisons \<open>a < b\<close> and \<open>a == b\<close> of two floats; both are false on a NaN.\<close>

fun flt :: "cfloat \<Rightarrow> cfloat \<Rightarrow> bool" where
  "flt NaN _ = False"
| "flt _ NaN = False"
| "flt (Finite x) (Finite y) = (x < y)"
| "flt _ NInf = False"
| "flt NInf _ = True"
| "flt PInf _ = False"
| "flt (Finite x) PInf = True"

fun feq :: "cfloat \<Rightarrow> cfloat \<Rightarrow> bool" where
  "feq (Finite x) (Finite y) = (x = y)"
| "feq PInf PInf = True"
| "feq NInf NInf = True"
| "feq _ _ = False"

definition fgt :: "cfloat \<Rightarrow> cfloat \<Rightarrow> bool" where
  "fgt a b = flt b a"

definition fge :: "cfloat \<Rightarrow> cfloat \<Rightarrow> bool" where
  "fge a b = (flt b a \<or> feq a b)"

text \<open>\<open>a != b\<close> on two \<open>float\<close> objects in memory.\<close>

definition float_ne :: "32 word \<Rightarrow> 32 word \<Rightarrow> bool" where
  "float_ne a b = (\<not> feq (float_of_bits a) (float_of_bits b))"

text \<open>
  \<open>a - b\<close> of two floats (rounded), and \<open>-a\<close>, \<open>fabsf\<close>, \<open>fmaxf\<close>, \<open>fminf\<close>
  (exact).
\<close>

fun fsub :: "cfloat \<Rightarrow> cfloat \<Rightarrow> cfloat" where
  "fsub NaN _ = NaN"
| "fsub _ NaN = NaN"
| "fsub (Finite x) (Finite y) = to_float (x - y)"
| "fsub PInf PInf = NaN"
| "fsub NInf NInf = NaN"
| "fsub PInf _ = PInf"
| "fsub NInf _ = NInf"
| "fsub (Finite x) PInf = NInf"
| "fsub (Finite x) NInf = PInf"

fun fneg :: "cfloat \<Rightarrow> cfloat" where
  "fneg (Finite x) = Finite (- x)"
| "fneg PInf = NInf"
| "fneg NInf = PInf"
| "fneg NaN = NaN"

fun fabsf :: "cfloat \<Rightarrow> cfloat" where
  "fabsf (Finite x) = Finite \<bar>x\<bar>"
| "fabsf PInf = PInf"
| "fabsf NInf = PInf"
| "fabsf NaN = NaN"

definition fmaxf :: "cfloat \<Rightarrow> cfloat \<Rightarrow> cfloat" where
  "fmaxf a b = (if a = NaN then b else if b = NaN then a else if flt a b then b else a)"

definition fminf :: "cfloat \<Rightarrow> cfloat \<Rightarrow> cfloat" where
  "fminf a b = (if a = NaN then b else if b = NaN then a else if flt b a then b else a)"

text \<open>
  \<open>a / c\<close> and \<open>a * c\<close> of a float and a positive constant that is a float (the
  source divides by 100 and multiplies by 5), rounded to \<open>float\<close>.
\<close>

fun fdivc :: "cfloat \<Rightarrow> real \<Rightarrow> cfloat" where
  "fdivc (Finite x) c = to_float (x / c)"
| "fdivc a c = a"

fun fmulc :: "cfloat \<Rightarrow> real \<Rightarrow> cfloat" where
  "fmulc (Finite x) c = to_float (x * c)"
| "fmulc a c = a"

text \<open>
  \<open>a + c\<close> of a float and a \<open>double\<close> constant: the float is promoted, the sum is a
  \<open>double\<close>. The constant \<open>.1\<close> is the \<open>double\<close> nearest to one tenth. A \<open>double\<close>
  passed to \<open>floorf\<close> is converted to \<open>float\<close>.
\<close>

fun dadd :: "cfloat \<Rightarrow> real \<Rightarrow> cfloat" where
  "dadd (Finite x) c = to_double (x + c)"
| "dadd a c = a"

definition double_tenth :: real where
  "double_tenth = 3602879701896397 / 2 ^ 55"

fun float_of_double :: "cfloat \<Rightarrow> cfloat" where
  "float_of_double (Finite x) = to_float x"
| "float_of_double a = a"

text \<open>\<open>floorf\<close> of \<open>math.h\<close>; the floor of a float is a float.\<close>

fun floorf :: "cfloat \<Rightarrow> cfloat" where
  "floorf (Finite x) = Finite (of_int \<lfloor>x\<rfloor>)"
| "floorf a = a"

text \<open>
  The conversion of a \<open>float\<close> to \<open>int\<close> truncates towards zero; C leaves it undefined
  when the truncated value is not an \<open>int\<close> and on infinities and NaN: \<open>None\<close>.
\<close>

definition float_to_int :: "cfloat \<Rightarrow> cint option" where
  "float_to_int a =
     (case a of
        Finite x \<Rightarrow>
          (let t = (if 0 \<le> x then \<lfloor>x\<rfloor> else \<lceil>x\<rceil>)
           in if - (2 ^ 31) \<le> t \<and> t < 2 ^ 31 then Some (word_of_int t) else None)
      | _ \<Rightarrow> None)"

text \<open>
  The conversion as the binders run it. A binder converts whatever its field holds or its
  arithmetic gives and goes on; where C leaves the conversion undefined the \<open>int\<close> it
  goes on with is \<open>u a\<close>, for a function \<open>u\<close> that is a parameter (the conversion
  instructions of x86 give the smallest \<open>int\<close>).
\<close>

definition int_of_float :: "(cfloat \<Rightarrow> cint) \<Rightarrow> cfloat \<Rightarrow> cint" where
  "int_of_float u a = (case float_to_int a of Some i \<Rightarrow> i | None \<Rightarrow> u a)"

text \<open>The conversion of an \<open>int\<close> to \<open>float\<close>, rounded.\<close>

definition int_to_float :: "cint \<Rightarrow> cfloat" where
  "int_to_float i = to_float (real_of_int (sint i))"

datatype error = Float_to_int_undefined


section \<open>Introspection data\<close>

text \<open>
  \<open>develop/imageop.h\<close> and the introspection headers are not part of the sources; the
  descriptor below has the members the file reads. The type tags are the five the file
  tests for; every other tag of the introspection system is \<open>DT_INTROSPECTION_TYPE_OTHER\<close>.
\<close>

datatype dt_introspection_type_t =
    DT_INTROSPECTION_TYPE_FLOAT
  | DT_INTROSPECTION_TYPE_INT
  | DT_INTROSPECTION_TYPE_UINT
  | DT_INTROSPECTION_TYPE_BOOL
  | DT_INTROSPECTION_TYPE_ENUM
  | DT_INTROSPECTION_TYPE_OTHER

text \<open>An entry of an enumeration table; the table ends at the first entry without a name.\<close>

record dt_introspection_type_enum_tuple_t =
  name :: "string option"
  val :: cint
  description :: string

record dt_introspection_type_header_t =
  type :: dt_introspection_type_t
  offset :: nat
  description :: string

text \<open>
  The descriptor is a C union whose members all start with the header; the members the
  file reads are \<open>Float.Min\<close>, \<open>Float.Max\<close> (the bits of a \<open>float\<close> each), \<open>Int.Min\<close>,
  \<open>Int.Max\<close> and \<open>Enum.values\<close> (a pointer, \<open>None\<close> when null).
\<close>

record dt_introspection_field_t =
  header :: dt_introspection_type_header_t
  Float_Min :: "32 word"
  Float_Max :: "32 word"
  Int_Min :: cint
  Int_Max :: cint
  Enum_values :: "dt_introspection_type_enum_tuple_t list option"

section \<open>Modules, controls and the application state\<close>

type_synonym module_ptr = nat
type_synonym widget_ptr = nat

text \<open>
  A pointer \<open>p + f->header.offset\<close> into the parameter block of a module: the module and
  the byte offset.
\<close>

type_synonym field_ptr = "module_ptr \<times> nat"

record dt_module_param_t =
  mp_module :: module_ptr
  mp_param :: field_ptr

text \<open>The five callbacks of the file, each with the user data it is connected with.\<close>

datatype handler =
    Slider_float_callback field_ptr
  | Slider_int_callback field_ptr
  | Combobox_enum_callback field_ptr
  | Combobox_bool_callback field_ptr
  | Toggle_callback dt_module_param_t

datatype widget_kind = Bauhaus_slider | Bauhaus_combobox | Check_button | Box

text \<open>
  A GTK or bauhaus control, as far as this file sets it up: the module a bauhaus control
  belongs to (\<open>DT_BAUHAUS_WIDGET(widget)->module\<close>), its label, the arguments a slider was
  created with, the entries added to a combobox (label and auxiliary datum), the child
  pointers handed to \<open>gtk_box_pack_start\<close> in call order (\<open>None\<close> for a null pointer,
  which is no control), and the connected signal handlers.
\<close>

record gtk_widget =
  kind :: widget_kind
  owner :: module_ptr
  label :: string
  slider_min :: cfloat
  slider_max :: cfloat
  slider_step :: cfloat
  slider_defval :: cfloat
  slider_digits :: int
  slider_feedback :: int
  slider_format :: "string option"
  combo_entries :: "(string \<times> cint option) list"
  packed :: "widget_ptr option list"
  signals :: "(string \<times> handler) list"

text \<open>
  A module: its parameter block (one 32-bit cell per field offset; the fields are four
  bytes wide and do not overlap), the lookups \<open>so->get_f\<close> and \<open>so->get_p\<close> (the latter
  as the offset of the returned pointer in the block), whether a \<open>gui_changed\<close> hook is
  registered, and the container \<open>widget\<close> (\<open>None\<close> when null).
\<close>

record dt_iop_module_t =
  params :: "nat \<Rightarrow> 32 word"
  get_f :: "string \<Rightarrow> dt_introspection_field_t option"
  get_p :: "string \<Rightarrow> nat"
  gui_changed :: bool
  widget :: "widget_ptr option"

text \<open>
  Calls into the collaborators whose effect lies outside this file are recorded in order:
  the module's hook (with the control and the previous value that \<open>data\<close> points to), the
  color picker reset and the history commit (each with its flag argument).
\<close>

datatype event =
    Gui_changed module_ptr widget_ptr "32 word"
  | Color_picker_reset module_ptr bool
  | Add_history_item module_ptr bool

text \<open>
  The application state: \<open>darktable.gui->reset\<close>, the modules, the controls allocated so
  far, what the controls currently show (the results of \<open>dt_bauhaus_slider_get\<close>,
  \<open>dt_bauhaus_combobox_get\<close>, \<open>dt_bauhaus_combobox_get_data\<close> after dereferencing, and
  \<open>gtk_toggle_button_get_active\<close>), the message catalogue, the C library's \<open>log10f\<close>
  and \<open>powf\<close> (\<open>math.h\<close> does not fix their results bit by bit, so they are taken as
  they come), the \<open>int\<close> that a conversion from \<open>float\<close> gives where C leaves it
  undefined (\<open>indefinite\<close>), and the recorded calls.
\<close>

record darktable_t =
  reset :: int
  modules :: "module_ptr \<Rightarrow> dt_iop_module_t"
  widgets :: "widget_ptr \<Rightarrow> gtk_widget"
  next_widget :: widget_ptr
  dt_bauhaus_slider_get :: "widget_ptr \<Rightarrow> 32 word"
  dt_bauhaus_combobox_get :: "widget_ptr \<Rightarrow> cint"
  dt_bauhaus_combobox_get_data :: "widget_ptr \<Rightarrow> cint option"
  gtk_toggle_button_get_active :: "widget_ptr \<Rightarrow> gboolean"
  gettext :: "string \<Rightarrow> string"
  log10f :: "cfloat \<Rightarrow> cfloat"
  powf :: "cfloat \<Rightarrow> cfloat \<Rightarrow> cfloat"
  indefinite :: "cfloat \<Rightarrow> cint"
  events :: "event list"

subsection \<open>Collaborators\<close>

text \<open>
  Modelled from the spec: \<open>dt_iop_color_picker_reset\<close> (gui/color_picker_proxy.h) and
  \<open>dt_dev_add_history_item\<close> are not part of the sources; the spec names them as the
  color-picker-reset and history-commit operations taking (module, force-flag). The model
  records the call.
\<close>

definition record_event :: "event \<Rightarrow> darktable_t \<Rightarrow> darktable_t" where
  "record_event e g = g\<lparr>events := events g @ [e]\<rparr>"

definition dt_iop_color_picker_reset :: "module_ptr \<Rightarrow> bool \<Rightarrow> darktable_t \<Rightarrow> darktable_t" where
  "dt_iop_color_picker_reset self update g = record_event (Color_picker_reset self update) g"

definition dt_dev_add_history_item :: "module_ptr \<Rightarrow> bool \<Rightarrow> darktable_t \<Rightarrow> darktable_t" where
  "dt_dev_add_history_item self enable g = record_event (Add_history_item self enable) g"

text \<open>
  Modelled from the spec: the constructors and setters of bauhaus/bauhaus.h and GTK are
  not part of the sources. A constructor allocates the next control and stores its
  arguments; a setter stores its argument in the control it is given and does nothing
  when the control is null.
\<close>

definition blank_widget :: "widget_kind \<Rightarrow> module_ptr \<Rightarrow> gtk_widget" where
  "blank_widget k self =
     \<lparr>kind = k, owner = self, label = [], slider_min = Finite 0, slider_max = Finite 0,
      slider_step = Finite 0, slider_defval = Finite 0, slider_digits = 0,
      slider_feedback = 0, slider_format = None, combo_entries = [], packed = [],
      signals = []\<rparr>"

definition new_widget :: "gtk_widget \<Rightarrow> darktable_t \<Rightarrow> widget_ptr \<times> darktable_t" where
  "new_widget w g =
     (next_widget g,
      g\<lparr>widgets := (widgets g)(next_widget g := w), next_widget := Suc (next_widget g)\<rparr>)"

definition update_widget ::
  "widget_ptr \<Rightarrow> (gtk_widget \<Rightarrow> gtk_widget) \<Rightarrow> darktable_t \<Rightarrow> darktable_t" where
  "update_widget w f g = g\<lparr>widgets := (widgets g)(w := f (widgets g w))\<rparr>"

definition dt_bauhaus_slider_new_with_range_and_feedback ::
  "module_ptr \<Rightarrow> cfloat \<Rightarrow> cfloat \<Rightarrow> cfloat \<Rightarrow> cfloat \<Rightarrow> int \<Rightarrow> int \<Rightarrow> darktable_t
     \<Rightarrow> widget_ptr \<times> darktable_t" where
  "dt_bauhaus_slider_new_with_range_and_feedback self mn mx step defval digits feedback g =
     new_widget ((blank_widget Bauhaus_slider self)
       \<lparr>slider_min := mn, slider_max := mx, slider_step := step, slider_defval := defval,
        slider_digits := digits, slider_feedback := feedback\<rparr>) g"

definition dt_bauhaus_slider_new :: "module_ptr \<Rightarrow> darktable_t \<Rightarrow> widget_ptr \<times> darktable_t" where
  "dt_bauhaus_slider_new self g = new_widget (blank_widget Bauhaus_slider self) g"

definition dt_bauhaus_combobox_new :: "module_ptr \<Rightarrow> darktable_t \<Rightarrow> widget_ptr \<times> darktable_t" where
  "dt_bauhaus_combobox_new self g = new_widget (blank_widget Bauhaus_combobox self) g"

definition gtk_check_button_new_with_label ::
  "string \<Rightarrow> darktable_t \<Rightarrow> widget_ptr \<times> darktable_t" where
  "gtk_check_button_new_with_label str g =
     new_widget ((blank_widget Check_button 0)\<lparr>label := str\<rparr>) g"

definition gtk_box_new :: "darktable_t \<Rightarrow> widget_ptr \<times> darktable_t" where
  "gtk_box_new g = new_widget (blank_widget Box 0) g"

definition dt_bauhaus_widget_set_label ::
  "widget_ptr option \<Rightarrow> string \<Rightarrow> darktable_t \<Rightarrow> darktable_t" where
  "dt_bauhaus_widget_set_label w str g =
     (case w of None \<Rightarrow> g | Some p \<Rightarrow> update_widget p (\<lambda>x. x\<lparr>label := str\<rparr>) g)"

definition dt_bauhaus_slider_set_format :: "widget_ptr \<Rightarrow> string \<Rightarrow> darktable_t \<Rightarrow> darktable_t" where
  "dt_bauhaus_slider_set_format w str g = update_widget w (\<lambda>x. x\<lparr>slider_format := Some str\<rparr>) g"

definition dt_bauhaus_combobox_add_full ::
  "widget_ptr \<Rightarrow> string \<Rightarrow> cint option \<Rightarrow> darktable_t \<Rightarrow> darktable_t" where
  "dt_bauhaus_combobox_add_full w text data g =
     update_widget w (\<lambda>x. x\<lparr>combo_entries := combo_entries x @ [(text, data)]\<rparr>) g"

definition dt_bauhaus_combobox_add :: "widget_ptr \<Rightarrow> string \<Rightarrow> darktable_t \<Rightarrow> darktable_t" where
  "dt_bauhaus_combobox_add w text g = dt_bauhaus_combobox_add_full w text None g"

definition g_signal_connect ::
  "widget_ptr \<Rightarrow> string \<Rightarrow> handler \<Rightarrow> darktable_t \<Rightarrow> darktable_t" where
  "g_signal_connect w detailed_signal h g =
     update_widget w (\<lambda>x. x\<lparr>signals := signals x @ [(detailed_signal, h)]\<rparr>) g"

definition gtk_box_pack_start ::
  "widget_ptr \<Rightarrow> widget_ptr option \<Rightarrow> darktable_t \<Rightarrow> darktable_t" where
  "gtk_box_pack_start box child g = update_widget box (\<lambda>x. x\<lparr>packed := packed x @ [child]\<rparr>) g"

text \<open>A store through a field pointer.\<close>

definition store_field :: "field_ptr \<Rightarrow> 32 word \<Rightarrow> darktable_t \<Rightarrow> darktable_t" where
  "store_field field v g =
     g\<lparr>modules := (modules g)
        (fst field := (modules g (fst field))
           \<lparr>params := (params (modules g (fst field)))(snd field := v)\<rparr>)\<rparr>"

definition load_field :: "darktable_t \<Rightarrow> field_ptr \<Rightarrow> 32 word" where
  "load_field g field = params (modules g (fst field)) (snd field)"

section \<open>Change propagation\<close>

text \<open>
  \<open>process_changed_value\<close> (lines 45-54). \<open>self\<close> is \<open>None\<close> for the null pointer the
  bauhaus callbacks pass; \<open>data\<close> is the previous value that \<open>&previous\<close> points to.
\<close>

definition process_changed_value ::
  "module_ptr option \<Rightarrow> widget_ptr \<Rightarrow> 32 word \<Rightarrow> darktable_t \<Rightarrow> darktable_t" where
  "process_changed_value self0 w data g =
     (let self = (case self0 of None \<Rightarrow> owner (widgets g w) | Some m \<Rightarrow> m);
          g1 = (if gui_changed (modules g self)
                then record_event (Gui_changed self w data) g else g);
          g2 = dt_iop_color_picker_reset self True g1
      in dt_dev_add_history_item self True g2)"

text \<open>\<open>generic_slider_float_callback\<close> (lines 56-64).\<close>

definition generic_slider_float_callback ::
  "widget_ptr \<Rightarrow> field_ptr \<Rightarrow> darktable_t \<Rightarrow> darktable_t" where
  "generic_slider_float_callback slider field g =
     (if reset g \<noteq> 0 then g
      else
        let previous = load_field g field;
            g1 = store_field field (dt_bauhaus_slider_get g slider) g
        in if float_ne (load_field g1 field) previous
           then process_changed_value None slider previous g1 else g1)"

text \<open>
  \<open>generic_slider_int_callback\<close> (lines 66-74): the assignment converts the slider's
  \<open>float\<close> to \<open>int\<close>.
\<close>

definition generic_slider_int_callback ::
  "widget_ptr \<Rightarrow> field_ptr \<Rightarrow> darktable_t \<Rightarrow> error + darktable_t" where
  "generic_slider_int_callback slider field g =
     (if reset g \<noteq> 0 then Inr g
      else
        let previous = load_field g field
        in case float_to_int (float_of_bits (dt_bauhaus_slider_get g slider)) of
             None \<Rightarrow> Inl Float_to_int_undefined
           | Some v \<Rightarrow>
               let g1 = store_field field v g
               in Inr (if load_field g1 field \<noteq> previous
                       then process_changed_value None slider previous g1 else g1))"

text \<open>\<open>generic_combobox_enum_callback\<close> (lines 76-89).\<close>

definition generic_combobox_enum_callback ::
  "widget_ptr \<Rightarrow> field_ptr \<Rightarrow> darktable_t \<Rightarrow> darktable_t" where
  "generic_combobox_enum_callback combobox field g =
     (if reset g \<noteq> 0 then g
      else
        let previous = load_field g field;
            g1 = (case dt_bauhaus_combobox_get_data g combobox of
                    Some combo_data \<Rightarrow> store_field field combo_data g
                  | None \<Rightarrow> store_field field (dt_bauhaus_combobox_get g combobox) g)
        in if load_field g1 field \<noteq> previous
           then process_changed_value None combobox previous g1 else g1)"

text \<open>\<open>generic_combobox_bool_callback\<close> (lines 91-99).\<close>

definition generic_combobox_bool_callback ::
  "widget_ptr \<Rightarrow> field_ptr \<Rightarrow> darktable_t \<Rightarrow> darktable_t" where
  "generic_combobox_bool_callback combobox field g =
     (if reset g \<noteq> 0 then g
      else
        let previous = load_field g field;
            g1 = store_field field (dt_bauhaus_combobox_get g combobox) g
        in if load_field g1 field \<noteq> previous
           then process_changed_value None combobox previous g1 else g1)"

text \<open>\<open>generic_toggle_callback\<close> (lines 101-112).\<close>

definition generic_toggle_callback ::
  "widget_ptr \<Rightarrow> dt_module_param_t \<Rightarrow> darktable_t \<Rightarrow> darktable_t" where
  "generic_toggle_callback togglebutton data g =
     (if reset g \<noteq> 0 then g
      else
        let self = mp_module data;
            field = mp_param data;
            previous = load_field g field;
            g1 = store_field field (gtk_toggle_button_get_active g togglebutton) g
        in if load_field g1 field \<noteq> previous
           then process_changed_value (Some self) togglebutton previous g1 else g1)"

section \<open>The binders\<close>

text \<open>\<open>%d\<close> of \<open>g_strdup_printf\<close>.\<close>

function show_nat :: "nat \<Rightarrow> string" where
  "show_nat n =
     (if n < 10 then [char_of (48 + n)] else show_nat (n div 10) @ [char_of (48 + n mod 10)])"
  by pat_completeness auto
termination
  by (relation "measure id") auto

definition show_int :: "int \<Rightarrow> string" where
  "show_int i = (if i < 0 then CHR ''-'' # show_nat (nat (- i)) else show_nat (nat i))"

text \<open>\<open>top\<close> of line 132.\<close>

definition slider_top :: "cfloat \<Rightarrow> cfloat \<Rightarrow> cfloat" where
  "slider_top mn mx = fminf (fsub mx mn) (fmaxf (fabsf mn) (fabsf mx))"

text \<open>
  The step and the digit count of a float slider (lines 129-147), from the declared
  range and with the library's \<open>log10f\<close> and \<open>powf\<close>. \<open>log10step + .1\<close> is a sum
  of \<open>double\<close>, converted to \<open>float\<close> for \<open>floorf\<close>; the assignment
  \<open>digits = -fdigits\<close> converts a \<open>float\<close> to \<open>int\<close>.
\<close>

definition slider_step_digits ::
  "(cfloat \<Rightarrow> cint) \<Rightarrow> (cfloat \<Rightarrow> cfloat) \<Rightarrow> (cfloat \<Rightarrow> cfloat \<Rightarrow> cfloat)
     \<Rightarrow> cfloat \<Rightarrow> cfloat \<Rightarrow> cfloat \<times> int" where
  "slider_step_digits u lg pw mn mx =
     (let top = slider_top mn mx
      in if fge top (Finite 100) then (Finite 1, 2)
         else
           let step0 = fdivc top 100;
               log10step = lg step0;
               fdigits = floorf (float_of_double (dadd log10step double_tenth));
               step1 = pw (Finite 10) fdigits;
               step = (if fgt (fsub log10step fdigits) (Finite (1 / 2))
                       then fmulc step1 5 else step1)
           in (step, if flt fdigits (Finite (- 2))
                     then sint (int_of_float u (fneg fdigits)) else 2))"

text \<open>
  The last two statements of every binder (lines 187-188, 237-238, 268-269): the
  module's container is created when it is null, and the control is packed into it.
\<close>

definition pack_into_module_widget ::
  "module_ptr \<Rightarrow> widget_ptr option \<Rightarrow> darktable_t \<Rightarrow> darktable_t" where
  "pack_into_module_widget self child g =
     (case widget (modules g self) of
        Some box \<Rightarrow> gtk_box_pack_start box child g
      | None \<Rightarrow>
          (let (box, g1) = gtk_box_new g;
               g2 = g1\<lparr>modules := (modules g1)(self := (modules g1 self)\<lparr>widget := Some box\<rparr>)\<rparr>
           in gtk_box_pack_start box child g2))"

text \<open>The message of a placeholder: \<open>g_strdup_printf("'%s' ...", param)\<close>.\<close>

definition quoted :: "string \<Rightarrow> string \<Rightarrow> string" where
  "quoted param rest = [CHR 0x27] @ param @ [CHR 0x27] @ rest"

text \<open>
  \<open>dt_bauhaus_slider_from_params\<close> (lines 114-191). The returned pointer is \<open>None\<close> when
  it is null.
\<close>

definition dt_bauhaus_slider_from_params ::
  "module_ptr \<Rightarrow> string \<Rightarrow> darktable_t \<Rightarrow> widget_ptr option \<times> darktable_t" where
  "dt_bauhaus_slider_from_params self param g =
     (let p = self; m = modules g self
      in case get_f m param of
           Some f \<Rightarrow>
             (if type (header f) = DT_INTROSPECTION_TYPE_FLOAT then
                (let mn = float_of_bits (Float_Min f); mx = float_of_bits (Float_Max f);
                     defval = float_of_bits (params m (get_p m param));
                     (step, digits) =
                       slider_step_digits (indefinite g) (log10f g) (powf g) mn mx;
                     (slider, g1) =
                       dt_bauhaus_slider_new_with_range_and_feedback
                         self mn mx step defval digits 1 g;
                     post = [];
                     g2 = (if flt mn (Finite 0) \<or> post \<noteq> []
                           then dt_bauhaus_slider_set_format slider
                                  (''%'' @ (if flt mn (Finite 0) then ''+'' else [])
                                     @ ''.0'' @ show_int digits @ ''f'' @ post) g1
                           else g1);
                     g3 = g_signal_connect slider ''value-changed''
                            (Slider_float_callback (p, offset (header f))) g2;
                     g4 = dt_bauhaus_widget_set_label (Some slider)
                            (gettext g (description (header f))) g3
                 in (Some slider, pack_into_module_widget self (Some slider) g4))
              else if type (header f) = DT_INTROSPECTION_TYPE_INT then
                (let mn = Int_Min f; mx = Int_Max f;
                     defval = int_of_float (indefinite g)
                                (float_of_bits (params m (get_p m param)));
                     (slider, g1) =
                       dt_bauhaus_slider_new_with_range_and_feedback
                         self (int_to_float mn) (int_to_float mx) (Finite 1)
                         (int_to_float defval) 0 1 g;
                     g2 = g_signal_connect slider ''value-changed''
                            (Slider_int_callback (p, offset (header f))) g1;
                     g3 = dt_bauhaus_widget_set_label (Some slider)
                            (gettext g (description (header f))) g2
                 in (Some slider, pack_into_module_widget self (Some slider) g3))
              else
                (let slider = None;
                     g1 = dt_bauhaus_widget_set_label slider
                            (gettext g (description (header f))) g
                 in (slider, pack_into_module_widget self slider g1)))
         | None \<Rightarrow>
             (let str = quoted param '' is not a float/int/slider parameter'';
                  (slider, g1) = dt_bauhaus_slider_new self g;
                  g2 = dt_bauhaus_widget_set_label (Some slider) str g1
              in (Some slider, pack_into_module_widget self (Some slider) g2)))"

text \<open>
  The loop of lines 219-222 over the enumeration table: it stops at the first entry
  without a name; the end of the list stands for that entry. The auxiliary datum
  \<open>&iter->value\<close> of a choice is the entry's value.
\<close>

fun add_enum_entries ::
  "widget_ptr \<Rightarrow> dt_introspection_type_enum_tuple_t list \<Rightarrow> darktable_t \<Rightarrow> darktable_t" where
  "add_enum_entries combobox [] g = g"
| "add_enum_entries combobox (iter # rest) g =
     (case name iter of
        None \<Rightarrow> g
      | Some _ \<Rightarrow>
          add_enum_entries combobox rest
            (dt_bauhaus_combobox_add_full combobox
               (gettext g (dt_introspection_type_enum_tuple_t.description iter))
               (Some (val iter)) g))"

text \<open>\<open>dt_bauhaus_combobox_from_params\<close> (lines 193-241).\<close>

definition dt_bauhaus_combobox_from_params ::
  "module_ptr \<Rightarrow> string \<Rightarrow> darktable_t \<Rightarrow> widget_ptr \<times> darktable_t" where
  "dt_bauhaus_combobox_from_params self param g =
     (let p = self; m = modules g self; f0 = get_f m param;
          (combobox, g1) = dt_bauhaus_combobox_new self g;
          g2 =
            (case f0 of
               Some f \<Rightarrow>
                 (if type (header f) = DT_INTROSPECTION_TYPE_ENUM
                     \<or> type (header f) = DT_INTROSPECTION_TYPE_INT
                     \<or> type (header f) = DT_INTROSPECTION_TYPE_UINT
                     \<or> type (header f) = DT_INTROSPECTION_TYPE_BOOL
                  then
                    (let ga = dt_bauhaus_widget_set_label (Some combobox)
                                (gettext g (description (header f))) g1
                     in if type (header f) = DT_INTROSPECTION_TYPE_BOOL then
                          (let gb = dt_bauhaus_combobox_add combobox (gettext g ''no'') ga;
                               gc = dt_bauhaus_combobox_add combobox (gettext g ''yes'') gb
                           in g_signal_connect combobox ''value-changed''
                                (Combobox_bool_callback (p, offset (header f))) gc)
                        else
                          (let gb =
                                 (if type (header f) = DT_INTROSPECTION_TYPE_ENUM
                                  then (case Enum_values f of
                                          None \<Rightarrow> ga
                                        | Some tuples \<Rightarrow> add_enum_entries combobox tuples ga)
                                  else ga)
                           in g_signal_connect combobox ''value-changed''
                                (Combobox_enum_callback (p, offset (header f))) gb))
                  else
                    dt_bauhaus_widget_set_label (Some combobox)
                      (quoted param '' is not an enum/int/bool/combobox parameter'') g1)
             | None \<Rightarrow>
                 dt_bauhaus_widget_set_label (Some combobox)
                   (quoted param '' is not an enum/int/bool/combobox parameter'') g1)
      in (combobox, pack_into_module_widget self (Some combobox) g2))"

text \<open>
  \<open>dt_bauhaus_toggle_from_params\<close> (lines 243-272). \<open>g_signal_connect_data\<close> connects
  the callback with the allocated (module, field) pair; its destroy notifier frees the
  pair with the control.
\<close>

definition g_signal_connect_data ::
  "widget_ptr \<Rightarrow> string \<Rightarrow> handler \<Rightarrow> darktable_t \<Rightarrow> darktable_t" where
  "g_signal_connect_data w detailed_signal h g = g_signal_connect w detailed_signal h g"

definition dt_bauhaus_toggle_from_params ::
  "module_ptr \<Rightarrow> string \<Rightarrow> darktable_t \<Rightarrow> widget_ptr \<times> darktable_t" where
  "dt_bauhaus_toggle_from_params self param g =
     (let p = self; m = modules g self; f0 = get_f m param;
          (button, g2) =
            (case f0 of
               Some f \<Rightarrow>
                 (if type (header f) = DT_INTROSPECTION_TYPE_BOOL then
                    (let (button, g1) =
                           gtk_check_button_new_with_label (gettext g (description (header f))) g;
                         module_param = \<lparr>mp_module = self, mp_param = (p, offset (header f))\<rparr>
                     in (button,
                         g_signal_connect_data button ''toggled'' (Toggle_callback module_param) g1))
                  else
                    gtk_check_button_new_with_label
                      (quoted param '' is not a bool/togglebutton parameter'') g)
             | None \<Rightarrow>
                 gtk_check_button_new_with_label
                   (quoted param '' is not a bool/togglebutton parameter'') g)
      in (button, pack_into_module_widget self (Some button) g2))"

text \<open>
  The three binders under one name, and a sequence of binder calls on one module. The
  result lists, for every call, the returned pointer and the module's container after
  the call.
\<close>

datatype binder_call = Bind_slider string | Bind_combobox string | Bind_toggle string

fun bind_control ::
  "binder_call \<Rightarrow> module_ptr \<Rightarrow> darktable_t \<Rightarrow> widget_ptr option \<times> darktable_t" where
  "bind_control (Bind_slider param) self g = dt_bauhaus_slider_from_params self param g"
| "bind_control (Bind_combobox param) self g =
     (let (w, g') = dt_bauhaus_combobox_from_params self param g in (Some w, g'))"
| "bind_control (Bind_toggle param) self g =
     (let (w, g') = dt_bauhaus_toggle_from_params self param g in (Some w, g'))"

fun bind_controls ::
  "binder_call list \<Rightarrow> module_ptr \<Rightarrow> darktable_t
     \<Rightarrow> (widget_ptr option \<times> widget_ptr option) list \<times> darktable_t" where
  "bind_controls [] self g = ([], g)"
| "bind_controls (c # cs) self g =
     (let (w, g1) = bind_control c self g;
          (ws, g2) = bind_controls cs self g1
      in ((w, widget (modules g1 self)) # ws, g2))"

section \<open>The statements of the specification\<close>

text \<open>
  The calls a change is propagated with, in the order of lines 49-53: the hook when one
  is registered, the color picker reset, the history commit.
\<close>

definition change_events ::
  "darktable_t \<Rightarrow> module_ptr \<Rightarrow> widget_ptr \<Rightarrow> 32 word \<Rightarrow> event list" where
  "change_events g self w previous =
     (if gui_changed (modules g self) then [Gui_changed self w previous] else [])
       @ [Color_picker_reset self True, Add_history_item self True]"



text \<open>\<open>top = min(max-min, max(|min|,|max|))\<close> of a finite range, in real arithmetic.\<close>

definition top_of_range :: "real \<Rightarrow> real \<Rightarrow> real" where
  "top_of_range mn mx = min (mx - mn) (max \<bar>mn\<bar> \<bar>mx\<bar>)"

text \<open>
  The rule of the specification for the step and the digit count, in its words and in
  real arithmetic: the exponent is the floor of \<open>log10(top/100)\<close>, and the step is
  multiplied by 5 when the fractional part of the logarithm exceeds 0.5.
\<close>

definition spec_step_digits :: "real \<Rightarrow> real \<Rightarrow> real \<times> int" where
  "spec_step_digits mn mx =
     (let top = top_of_range mn mx
      in if 100 \<le> top then (1, 2)
         else
           let l = log 10 (top / 100);
               e = \<lfloor>l\<rfloor>;
               step = (if 1 / 2 < l - of_int e then 10 powr (of_int e) * 5 else 10 powr (of_int e))
           in (step, if e < - 2 then - e else 2))"

text \<open>The choices added for an enumeration table, up to its terminating entry.\<close>

definition enum_choices ::
  "(string \<Rightarrow> string) \<Rightarrow> dt_introspection_type_enum_tuple_t list \<Rightarrow> (string \<times> cint option) list" where
  "enum_choices tr tuples =
     map (\<lambda>t. (tr (dt_introspection_type_enum_tuple_t.description t), Some (val t)))
       (takeWhile (\<lambda>t. name t \<noteq> None) tuples)"

text \<open>
  A state that differs from an earlier one only by newly allocated controls: what a
  binder has done before its last two statements.
\<close>

definition allocated_from :: "darktable_t \<Rightarrow> darktable_t \<Rightarrow> bool" where
  "allocated_from g g' \<longleftrightarrow>
     modules g' = modules g \<and> next_widget g \<le> next_widget g'
     \<and> (\<forall>b < next_widget g. widgets g' b = widgets g b)"

section \<open>An example module\<close>

text \<open>
  A module with four float parameters (declared ranges [0, 1], [0, 9], [-50, 50] and
  [-180, 180]), an integer, a boolean and an enumeration, and a state with this module,
  no control yet, and a slider position of 1.0. The C library of the example returns, at
  the arguments the example meets, the floats nearest to the true values:
  \<open>log10f(0.01f) = -2\<close>, \<open>log10f(0.09f) = -1.0457575\<close>, \<open>log10f(0.5f) = -0.30103\<close>,
  \<open>powf(10, -2) = 0.01f\<close> and \<open>powf(10, -1) = 0.1f\<close>.
\<close>

definition example_log10f :: "cfloat \<Rightarrow> cfloat" where
  "example_log10f a =
     (if a = Finite (5368709 / 536870912) then Finite (- 2)
      else if a = Finite (3019899 / 33554432) then Finite (- (4386225 / 4194304))
      else if a = Finite (1 / 2) then Finite (- (10100891 / 33554432))
      else NaN)"

definition example_powf :: "cfloat \<Rightarrow> cfloat \<Rightarrow> cfloat" where
  "example_powf b y =
     (if b = Finite 10 \<and> y = Finite (- 2) then Finite (5368709 / 536870912)
      else if b = Finite 10 \<and> y = Finite (- 1) then Finite (13421773 / 134217728)
      else NaN)"

definition example_field ::
  "dt_introspection_type_t \<Rightarrow> nat \<Rightarrow> string \<Rightarrow> dt_introspection_field_t" where
  "example_field t off descr =
     \<lparr>header = \<lparr>type = t, offset = off, description = descr\<rparr>,
      Float_Min = 0, Float_Max = 0, Int_Min = 0, Int_Max = 0,
      Enum_values = None\<rparr>"

definition example_get_f :: "string \<Rightarrow> dt_introspection_field_t option" where
  "example_get_f param =
     (if param = ''opacity'' then
        Some ((example_field DT_INTROSPECTION_TYPE_FLOAT 0 ''opacity'')
                \<lparr>Float_Min := 0, Float_Max := 0x3F800000\<rparr>)
      else if param = ''radius'' then
        Some ((example_field DT_INTROSPECTION_TYPE_FLOAT 4 ''radius'')
                \<lparr>Float_Min := 0, Float_Max := 0x41100000\<rparr>)
      else if param = ''shift'' then
        Some ((example_field DT_INTROSPECTION_TYPE_FLOAT 8 ''shift'')
                \<lparr>Float_Min := 0xC2480000, Float_Max := 0x42480000\<rparr>)
      else if param = ''angle'' then
        Some ((example_field DT_INTROSPECTION_TYPE_FLOAT 12 ''angle'')
                \<lparr>Float_Min := 0xC3340000, Float_Max := 0x43340000\<rparr>)
      else if param = ''iterations'' then
        Some ((example_field DT_INTROSPECTION_TYPE_INT 16 ''iterations'')
                \<lparr>Int_Min := 0, Int_Max := 10\<rparr>)
      else if param = ''enabled'' then
        Some (example_field DT_INTROSPECTION_TYPE_BOOL 20 ''enabled'')
      else if param = ''mode'' then
        Some ((example_field DT_INTROSPECTION_TYPE_ENUM 24 ''mode'')
                \<lparr>Enum_values := Some
                   [\<lparr>name = Some ''MODE_LINEAR'', val = 0,
                     dt_introspection_type_enum_tuple_t.description = ''linear''\<rparr>,
                    \<lparr>name = Some ''MODE_LOG'', val = 5,
                     dt_introspection_type_enum_tuple_t.description = ''logarithmic''\<rparr>,
                    \<lparr>name = None, val = 0,
                     dt_introspection_type_enum_tuple_t.description = []\<rparr>]\<rparr>)
      else None)"

definition example_get_p :: "string \<Rightarrow> nat" where
  "example_get_p param =
     (case example_get_f param of Some f \<Rightarrow> offset (header f) | None \<Rightarrow> 0)"

definition example_module :: dt_iop_module_t where
  "example_module =
     \<lparr>params = (\<lambda>_. 0)(16 := 5), get_f = example_get_f, get_p = example_get_p,
      gui_changed = True, widget = None\<rparr>"

definition example_gui :: darktable_t where
  "example_gui =
     \<lparr>reset = 0, modules = (\<lambda>_. example_module), widgets = (\<lambda>_. blank_widget Box 0),
      next_widget = 0, dt_bauhaus_slider_get = (\<lambda>_. 0x3F800000),
      dt_bauhaus_combobox_get = (\<lambda>_. 1), dt_bauhaus_combobox_get_data = (\<lambda>_. Some 5),
      gtk_toggle_button_get_active = (\<lambda>_. 1), gettext = (\<lambda>s. s),
      log10f = example_log10f, powf = example_powf,
      indefinite = (\<lambda>_. 0x80000000), events = []\<rparr>"


section \<open>Stores, controls and the recorded calls\<close>

lemma load_store_field [simp]: "load_field (store_field field v g) field = v"
  by (simp add: load_field_def store_field_def)

lemma store_field_frame [simp]:
  "events (store_field field v g) = events g"
  "widgets (store_field field v g) = widgets g"
  "reset (store_field field v g) = reset g"
  "gui_changed (modules (store_field field v g) m) = gui_changed (modules g m)"
  "widget (modules (store_field field v g) m) = widget (modules g m)"
  by (simp_all add: store_field_def)

lemma change_events_store [simp]:
  "change_events (store_field field v g) self w d = change_events g self w d"
  by (simp add: change_events_def)


lemma load_process_changed_value [simp]:
  "load_field (process_changed_value self0 w data g) field = load_field g field"
  by (simp add: process_changed_value_def Let_def record_event_def load_field_def
      dt_iop_color_picker_reset_def dt_dev_add_history_item_def)

lemma example_fields [simp]:
  "load_field example_gui (m, 0) = 0"
  "load_field example_gui (m, 16) = 5"
  "load_field example_gui (m, 20) = 0"
  "load_field example_gui (m, 24) = 0"
  by (simp_all add: load_field_def example_gui_def example_module_def)

lemma example_readings [simp]:
  "reset example_gui = 0"
  "events example_gui = []"
  "dt_bauhaus_slider_get example_gui w = 0x3F800000"
  "dt_bauhaus_combobox_get example_gui w = 1"
  "dt_bauhaus_combobox_get_data example_gui w = Some 5"
  "gtk_toggle_button_get_active example_gui w = 1"
  "owner (widgets example_gui w) = 0"
  "gui_changed (modules example_gui m) = True"
  by (simp_all add: example_gui_def example_module_def blank_widget_def)

lemma float_of_bits_one [simp]: "float_of_bits 0x3F800000 = Finite 1"
  by (simp add: float_of_bits_def Let_def)

lemma float_of_bits_zero [simp]: "float_of_bits 0 = Finite 0"
  by (simp add: float_of_bits_def Let_def)

lemma float_to_int_one [simp]: "float_to_int (Finite 1) = Some 1"
  by (simp add: float_to_int_def)

section \<open>Change events\<close>




text \<open>
  C2. A change event of any of the five handlers that arrives while
  \<open>darktable.gui->reset\<close> is set leaves the whole state as it is: no field is written,
  no hook is called, the color picker is not reset and no history item is added.
\<close>

theorem reset_state_ignores_event:
  assumes "reset g \<noteq> 0"
  shows "generic_slider_float_callback w field g = g
       \<and> generic_slider_int_callback w field g = Inr g
       \<and> generic_combobox_enum_callback w field g = g
       \<and> generic_combobox_bool_callback w field g = g
       \<and> generic_toggle_callback w data g = g"
proof -
  have "generic_slider_float_callback w field g = g"
    using assms by (simp add: generic_slider_float_callback_def)
  moreover have "generic_slider_int_callback w field g = Inr g"
    using assms by (simp add: generic_slider_int_callback_def)
  moreover have "generic_combobox_enum_callback w field g = g"
    using assms by (simp add: generic_combobox_enum_callback_def)
  moreover have "generic_combobox_bool_callback w field g = g"
    using assms by (simp add: generic_combobox_bool_callback_def)
  moreover have "generic_toggle_callback w data g = g"
    using assms by (simp add: generic_toggle_callback_def)
  ultimately show ?thesis by simp
qed

theorem reset_state_ignores_event_witness:
  "reset (example_gui\<lparr>reset := 1\<rparr>) \<noteq> 0
   \<and> generic_slider_float_callback 0 (0, 0) (example_gui\<lparr>reset := 1\<rparr>)
       = example_gui\<lparr>reset := 1\<rparr>
   \<and> generic_slider_int_callback 0 (0, 0) (example_gui\<lparr>reset := 1\<rparr>)
       = Inr (example_gui\<lparr>reset := 1\<rparr>)
   \<and> generic_combobox_enum_callback 0 (0, 0) (example_gui\<lparr>reset := 1\<rparr>)
       = example_gui\<lparr>reset := 1\<rparr>
   \<and> generic_combobox_bool_callback 0 (0, 0) (example_gui\<lparr>reset := 1\<rparr>)
       = example_gui\<lparr>reset := 1\<rparr>
   \<and> generic_toggle_callback 0 \<lparr>mp_module = 0, mp_param = (0, 20)\<rparr> (example_gui\<lparr>reset := 1\<rparr>)
       = example_gui\<lparr>reset := 1\<rparr>
   \<and> events (example_gui\<lparr>reset := 1\<rparr>) = []
   \<and> load_field (example_gui\<lparr>reset := 1\<rparr>) (0, 16) = 5"
  using reset_state_ignores_event
    [of "example_gui\<lparr>reset := 1\<rparr>" 0 "(0, 0)" "\<lparr>mp_module = 0, mp_param = (0, 20)\<rparr>"]
  by (simp add: load_field_def example_gui_def example_module_def)




section \<open>Facts about the toolkit\<close>

lemmas toolkit_defs =
  dt_bauhaus_slider_new_with_range_and_feedback_def dt_bauhaus_slider_new_def
  dt_bauhaus_combobox_new_def gtk_check_button_new_with_label_def gtk_box_new_def
  dt_bauhaus_widget_set_label_def dt_bauhaus_slider_set_format_def
  dt_bauhaus_combobox_add_full_def dt_bauhaus_combobox_add_def g_signal_connect_def
  g_signal_connect_data_def gtk_box_pack_start_def

lemma update_widget_simps [simp]:
  "modules (update_widget w f g) = modules g"
  "events (update_widget w f g) = events g"
  "reset (update_widget w f g) = reset g"
  "gettext (update_widget w f g) = gettext g"
  "next_widget (update_widget w f g) = next_widget g"
  "log10f (update_widget w f g) = log10f g"
  "powf (update_widget w f g) = powf g"
  "indefinite (update_widget w f g) = indefinite g"
  "widgets (update_widget w f g) = (widgets g)(w := f (widgets g w))"
  by (simp_all add: update_widget_def)

lemma new_widget_simps [simp]:
  "fst (new_widget x g) = next_widget g"
  "modules (snd (new_widget x g)) = modules g"
  "events (snd (new_widget x g)) = events g"
  "reset (snd (new_widget x g)) = reset g"
  "gettext (snd (new_widget x g)) = gettext g"
  "next_widget (snd (new_widget x g)) = Suc (next_widget g)"
  "log10f (snd (new_widget x g)) = log10f g"
  "powf (snd (new_widget x g)) = powf g"
  "indefinite (snd (new_widget x g)) = indefinite g"
  "widgets (snd (new_widget x g)) = (widgets g)(next_widget g := x)"
  by (simp_all add: new_widget_def)

lemma pack_into_module_widget_frame [simp]:
  "params (modules (pack_into_module_widget self child g) m) = params (modules g m)"
  "gui_changed (modules (pack_into_module_widget self child g) m) = gui_changed (modules g m)"
  "get_f (modules (pack_into_module_widget self child g) m) = get_f (modules g m)"
  "get_p (modules (pack_into_module_widget self child g) m) = get_p (modules g m)"
  "events (pack_into_module_widget self child g) = events g"
  "reset (pack_into_module_widget self child g) = reset g"
  "gettext (pack_into_module_widget self child g) = gettext g"
  "log10f (pack_into_module_widget self child g) = log10f g"
  "powf (pack_into_module_widget self child g) = powf g"
  "indefinite (pack_into_module_widget self child g) = indefinite g"
  by (simp_all add: pack_into_module_widget_def gtk_box_new_def gtk_box_pack_start_def
      split_def Let_def split: option.splits)

text \<open>Packing changes, of a control allocated before, at most the list of its children.\<close>

lemma pack_keeps_widget:
  assumes "w < next_widget g"
  shows "\<exists>pk. widgets (pack_into_module_widget self c g) w = (widgets g w)\<lparr>packed := pk\<rparr>"
proof (cases "widget (modules g self)")
  case None
  then have "widgets (pack_into_module_widget self c g) w = widgets g w"
    using assms
    by (simp add: pack_into_module_widget_def gtk_box_new_def gtk_box_pack_start_def
        split_def Let_def)
  then have "widgets (pack_into_module_widget self c g) w
               = (widgets g w)\<lparr>packed := packed (widgets g w)\<rparr>"
    by simp
  then show ?thesis by blast
next
  case (Some box)
  show ?thesis
  proof (cases "box = w")
    case True
    with Some have "widgets (pack_into_module_widget self c g) w
               = (widgets g w)\<lparr>packed := packed (widgets g w) @ [c]\<rparr>"
      by (simp add: pack_into_module_widget_def gtk_box_pack_start_def)
    then show ?thesis by blast
  next
    case False
    with Some have "widgets (pack_into_module_widget self c g) w
               = (widgets g w)\<lparr>packed := packed (widgets g w)\<rparr>"
      by (simp add: pack_into_module_widget_def gtk_box_pack_start_def)
    then show ?thesis by blast
  qed
qed

text \<open>The loop over the enumeration table adds the choices of the table in one step.\<close>

lemma add_enum_entries_eq:
  "add_enum_entries cb tuples g =
     update_widget cb (\<lambda>x. x\<lparr>combo_entries := combo_entries x @ enum_choices (gettext g) tuples\<rparr>) g"
proof (induction tuples arbitrary: g)
  case Nil
  show ?case by (simp add: enum_choices_def update_widget_def)
next
  case (Cons t ts)
  show ?case
  proof (cases "name t")
    case None
    then show ?thesis by (simp add: enum_choices_def update_widget_def)
  next
    case (Some n)
    then show ?thesis
      by (simp add: Cons.IH dt_bauhaus_combobox_add_full_def enum_choices_def)
         (simp add: update_widget_def)
  qed
qed

section \<open>Facts about rounding\<close>

lemma powr_powi: "(2::real) powr (of_int k) = 2 powi k"
  by (rule powr_real_of_int') simp_all

lemma floor_log2_eq:
  assumes "2 powi e \<le> a" "a < 2 powi (e + 1)"
  shows "\<lfloor>log 2 (a::real)\<rfloor> = e"
proof -
  have pos: "0 < a" using assms(1) by (smt (verit) zero_less_power_int)
  have "of_int e \<le> log 2 a"
    using assms(1) pos by (simp add: le_log_iff powr_powi)
  moreover have "log 2 a < of_int (e + 1)"
    using assms(2) pos powr_powi [of "e + 1"] by (simp add: log_less_iff)
  ultimately show ?thesis by (simp add: floor_eq_iff)
qed

lemma round_to_eval:
  assumes "2 powi e \<le> \<bar>x\<bar>" "\<bar>x\<bar> < 2 powi (e + 1)" "emin \<le> e"
  shows "round_to p emin x
           = sgn x * of_int (round_half_even (\<bar>x\<bar> / 2 powi (e - int p + 1)))
               * 2 powi (e - int p + 1)"
proof -
  have "x \<noteq> 0" using assms(1) by (smt (verit) zero_less_power_int)
  moreover have "\<lfloor>log 2 \<bar>x\<bar>\<rfloor> = e" using assms(1,2) by (rule floor_log2_eq)
  ultimately show ?thesis using assms(3) by (simp add: round_to_def Let_def max_def)
qed

lemma round_to_subnormal:
  assumes "x \<noteq> 0" "\<bar>x\<bar> < 2 powi emin"
  shows "round_to p emin x
           = sgn x * of_int (round_half_even (\<bar>x\<bar> / 2 powi (emin - int p + 1)))
               * 2 powi (emin - int p + 1)"
proof -
  have pos: "0 < \<bar>x\<bar>" using assms(1) by simp
  have "log 2 \<bar>x\<bar> < of_int emin"
    using assms(2) pos powr_powi [of emin] by (simp add: log_less_iff)
  then have "\<lfloor>log 2 \<bar>x\<bar>\<rfloor> < emin" by (simp add: floor_less_iff)
  then show ?thesis using assms(1) by (simp add: round_to_def Let_def max_def)
qed

lemma to_float_0 [simp]: "to_float 0 = Finite 0"
  by (simp add: to_float_def ieee_round_def round_to_def)

lemma to_float_1: "to_float 1 = Finite 1"
  using round_to_eval [of 0 1 "- 126" 24]
  by (simp add: to_float_def ieee_round_def round_half_even_def)

lemma to_float_9: "to_float 9 = Finite 9"
  using round_to_eval [of 3 9 "- 126" 24]
  by (simp add: to_float_def ieee_round_def round_half_even_def)

lemma to_float_hundredth: "to_float (1 / 100) = Finite (5368709 / 536870912)"
  using round_to_eval [of "- 7" "1 / 100" "- 126" 24]
  by (simp add: to_float_def ieee_round_def round_half_even_def)

lemma to_float_9_100: "to_float (9 / 100) = Finite (3019899 / 33554432)"
  using round_to_eval [of "- 4" "9 / 100" "- 126" 24]
  by (simp add: to_float_def ieee_round_def round_half_even_def)

lemma to_double_sum: "to_double (- 2 + double_tenth) = Finite (- (4278419646001971 / 2251799813685248))"
  using round_to_eval [of 0 "- 2 + double_tenth" "- 1022" 53]
  by (simp add: to_double_def ieee_round_def round_half_even_def double_tenth_def)

lemma to_float_sum: "to_float (- (4278419646001971 / 2251799813685248)) = Finite (- (15938355 / 8388608))"
  using round_to_eval [of 0 "- (4278419646001971 / 2251799813685248)" "- 126" 24]
  by (simp add: to_float_def ieee_round_def round_half_even_def)

lemma to_float_tiny: "to_float (1 / 2 ^ 149 / 100) = Finite 0"
  using round_to_subnormal [of "1 / 2 ^ 149 / 100" "- 126" 24]
  by (simp add: to_float_def ieee_round_def round_half_even_def)

lemma round_half_even_ge_floor: "\<lfloor>q\<rfloor> \<le> round_half_even q"
  by (simp add: round_half_even_def Let_def)

lemma round_half_even_ge:
  assumes "of_int m \<le> q"
  shows "m \<le> round_half_even q"
proof -
  have "m \<le> \<lfloor>q\<rfloor>" using assms by (simp add: le_floor_iff)
  then show ?thesis using round_half_even_ge_floor [of q] by linarith
qed

lemma round_to_ge_multiple:
  assumes "0 < x" "emin \<le> \<lfloor>log 2 x\<rfloor>"
    and "of_int m * 2 powi (\<lfloor>log 2 x\<rfloor> - int p + 1) \<le> x"
  shows "of_int m * 2 powi (\<lfloor>log 2 x\<rfloor> - int p + 1) \<le> round_to p emin x"
proof -
  define u :: real where "u = 2 powi (\<lfloor>log 2 x\<rfloor> - int p + 1)"
  have u: "0 < u" by (simp add: u_def)
  have "of_int m \<le> x / u" using assms(3) u by (simp add: u_def pos_le_divide_eq)
  then have "m \<le> round_half_even (x / u)" by (rule round_half_even_ge)
  then have "of_int m * u \<le> of_int (round_half_even (x / u)) * u"
    using u by simp
  moreover have "round_to p emin x = of_int (round_half_even (x / u)) * u"
    using assms(1,2) by (simp add: round_to_def Let_def max_def u_def)
  ultimately show ?thesis by (simp add: u_def)
qed

lemma round_to_float_ge_100:
  assumes "100 \<le> (x::real)"
  shows "100 \<le> round_to 24 (- 126) x"
proof -
  define e where "e = \<lfloor>log 2 x\<rfloor>"
  have pos: "0 < x" using assms by simp
  have "(2::real) powr 6 \<le> x" using assms by simp
  then have "6 \<le> log 2 x" using pos by (simp add: le_log_iff)
  then have e6: "6 \<le> e" unfolding e_def by (simp add: le_floor_iff)
  have "of_int e \<le> log 2 x" unfolding e_def by simp
  then have low: "2 powi e \<le> x" using pos by (simp add: le_log_iff powr_powi)
  have emin: "- 126 \<le> \<lfloor>log 2 x\<rfloor>" using e6 e_def by simp
  show ?thesis
  proof (cases "e \<le> 25")
    case True
    define m :: int where "m = 25 * 2 ^ nat (25 - e)"
    have "(2::real) powi 2 = 2 powi ((25 - e) + (e - 23))" by simp
    also have "\<dots> = 2 powi (25 - e) * 2 powi (e - 23)"
      by (rule power_int_add) simp
    finally have "(2::real) powi (25 - e) * 2 powi (e - 23) = 4" by simp
    moreover have "(2::real) powi (25 - e) = 2 ^ nat (25 - e)"
      using True by (simp add: power_int_def)
    ultimately have "(2::real) ^ nat (25 - e) * 2 powi (e - 23) = 4" by simp
    then have "25 * ((2::real) ^ nat (25 - e) * 2 powi (e - 23)) = 100" by simp
    then have "of_int m * (2::real) powi (e - 23) = 100"
      by (simp add: m_def mult.assoc)
    then have eq: "of_int m * (2::real) powi (\<lfloor>log 2 x\<rfloor> - int 24 + 1) = 100"
      by (simp add: e_def)
    from round_to_ge_multiple [OF pos emin, of m 24] eq assms show ?thesis by simp
  next
    case False
    have "(2::real) powi e = 2 powi (23 + (e - 23))" by simp
    also have "\<dots> = 2 powi 23 * 2 powi (e - 23)"
      by (rule power_int_add) simp
    finally have eq: "of_int (2 ^ 23) * (2::real) powi (\<lfloor>log 2 x\<rfloor> - int 24 + 1) = 2 powi e"
      by (simp add: e_def)
    have "(2::real) powi 26 \<le> 2 powi e"
      using False by (intro power_int_increasing) simp_all
    then have big: "100 \<le> (2::real) powi e" by simp
    from round_to_ge_multiple [OF pos emin, of "2 ^ 23" 24] eq low
    have "2 powi e \<le> round_to 24 (- 126) x" by simp
    with big show ?thesis by linarith
  qed
qed

lemma to_float_ge_100:
  assumes "100 \<le> (x::real)"
  shows "fge (to_float x) (Finite 100)"
  using round_to_float_ge_100 [OF assms]
  by (auto simp add: to_float_def ieee_round_def Let_def fge_def)

text \<open>Further values of the example, rounded.\<close>

lemma to_float_10: "to_float 10 = Finite 10"
  using round_to_eval [of 3 10 "- 126" 24]
  by (simp add: to_float_def ieee_round_def round_half_even_def)

lemma to_float_100: "to_float 100 = Finite 100"
  using round_to_eval [of 6 100 "- 126" 24]
  by (simp add: to_float_def ieee_round_def round_half_even_def)

lemma to_float_360: "to_float 360 = Finite 360"
  using round_to_eval [of 8 360 "- 126" 24]
  by (simp add: to_float_def ieee_round_def round_half_even_def)

lemma to_float_half: "to_float (1 / 2) = Finite (1 / 2)"
  using round_to_eval [of "- 1" "1 / 2" "- 126" 24]
  by (simp add: to_float_def ieee_round_def round_half_even_def)

lemma to_double_sum_9:
  "to_double (- (4386225 / 4194304) + double_tenth)
     = Finite (- (8518626538474701 / 9007199254740992))"
  using round_to_eval [of "- 1" "- (4386225 / 4194304) + double_tenth" "- 1022" 53]
  by (simp add: to_double_def ieee_round_def round_half_even_def double_tenth_def)

lemma to_float_sum_9:
  "to_float (- (8518626538474701 / 9007199254740992)) = Finite (- (7933589 / 8388608))"
  using round_to_eval [of "- 1" "- (8518626538474701 / 9007199254740992)" "- 126" 24]
  by (simp add: to_float_def ieee_round_def round_half_even_def)

lemma to_float_diff_9:
  "to_float (- (191921 / 4194304)) = Finite (- (191921 / 4194304))"
  using round_to_eval [of "- 5" "- (191921 / 4194304)" "- 126" 24]
  by (simp add: to_float_def ieee_round_def round_half_even_def)

lemma to_double_sum_half:
  "to_double (- (10100891 / 33554432) + double_tenth)
     = Finite (- (7242869424468787 / 36028797018963968))"
  using round_to_eval [of "- 3" "- (10100891 / 33554432) + double_tenth" "- 1022" 53]
  by (simp add: to_double_def ieee_round_def round_half_even_def double_tenth_def)

lemma to_float_sum_half:
  "to_float (- (7242869424468787 / 36028797018963968)) = Finite (- (843181 / 4194304))"
  using round_to_eval [of "- 3" "- (7242869424468787 / 36028797018963968)" "- 126" 24]
  by (simp add: to_float_def ieee_round_def round_half_even_def)

lemma to_float_diff_half:
  "to_float (23453541 / 33554432) = Finite (5863385 / 8388608)"
  using round_to_eval [of "- 1" "23453541 / 33554432" "- 126" 24]
  by (simp add: to_float_def ieee_round_def round_half_even_def)

lemma to_float_five_tenths:
  "to_float (67108865 / 134217728) = Finite (1 / 2)"
  using round_to_eval [of "- 1" "67108865 / 134217728" "- 126" 24]
  by (simp add: to_float_def ieee_round_def round_half_even_def)

lemma float_of_bits_examples [simp]:
  "float_of_bits 0x41100000 = Finite 9"
  "float_of_bits 0x42480000 = Finite 50"
  "float_of_bits 0xC2480000 = Finite (- 50)"
  "float_of_bits 0x43340000 = Finite 180"
  "float_of_bits 0xC3340000 = Finite (- 180)"
  by (simp_all add: float_of_bits_def Let_def)

lemma int_of_float_bits_5: "int_of_float u (float_of_bits 5) = 0"
  by (simp add: float_of_bits_def float_to_int_def int_of_float_def Let_def)

lemma int_to_float_0 [simp]: "int_to_float 0 = Finite 0"
  by (simp add: int_to_float_def)

lemma int_to_float_10: "int_to_float 10 = Finite 10"
  by (simp add: int_to_float_def to_float_10)

text \<open>The computation of the step and the digit count, one operation at a time.\<close>

lemma slider_step_digits_large:
  assumes top: "slider_top mn mx = tp" and large: "fge tp (Finite 100)"
  shows "slider_step_digits u lg pw mn mx = (Finite 1, 2)"
  using large unfolding slider_step_digits_def Let_def top by simp

lemma slider_step_digits_small:
  assumes top: "slider_top mn mx = tp"
    and small: "fge tp (Finite 100) = False"
    and l: "lg (fdivc tp 100) = l"
    and fd: "floorf (float_of_double (dadd l double_tenth)) = fd"
    and s1: "pw (Finite 10) fd = s1"
    and d: "fsub l fd = d"
  shows "slider_step_digits u lg pw mn mx
           = (if fgt d (Finite (1 / 2)) then fmulc s1 5 else s1,
              if flt fd (Finite (- 2)) then sint (int_of_float u (fneg fd)) else 2)"
  unfolding slider_step_digits_def Let_def top small l fd s1 d by (simp only: if_False)

text \<open>The step and the digit count of the three ranges of the example.\<close>

lemma slider_step_digits_0_1:
  "slider_step_digits u example_log10f example_powf (Finite 0) (Finite 1)
     = (Finite (5368709 / 536870912), 2)"
proof -
  have top: "slider_top (Finite 0) (Finite 1) = Finite 1"
    by (simp add: slider_top_def to_float_1 fminf_def fmaxf_def)
  have small: "fge (Finite 1) (Finite 100) = False"
    by (simp add: fge_def)
  have l: "example_log10f (fdivc (Finite 1) 100) = Finite (- 2)"
    by (simp add: to_float_hundredth example_log10f_def)
  have fd: "floorf (float_of_double (dadd (Finite (- 2)) double_tenth)) = Finite (- 2)"
    using to_double_sum by (simp add: to_float_sum)
  have s1: "example_powf (Finite 10) (Finite (- 2)) = Finite (5368709 / 536870912)"
    by (simp add: example_powf_def)
  have d: "fsub (Finite (- 2)) (Finite (- 2)) = Finite 0"
    by simp
  show ?thesis
    using slider_step_digits_small [where lg = example_log10f and pw = example_powf,
        OF top small l fd s1 d] by (simp add: fgt_def)
qed

lemma slider_step_digits_0_9:
  "slider_step_digits u example_log10f example_powf (Finite 0) (Finite 9)
     = (Finite (13421773 / 134217728), 2)"
proof -
  have top: "slider_top (Finite 0) (Finite 9) = Finite 9"
    by (simp add: slider_top_def to_float_9 fminf_def fmaxf_def)
  have small: "fge (Finite 9) (Finite 100) = False"
    by (simp add: fge_def)
  have l: "example_log10f (fdivc (Finite 9) 100) = Finite (- (4386225 / 4194304))"
    by (simp add: to_float_9_100 example_log10f_def)
  have fd: "floorf (float_of_double (dadd (Finite (- (4386225 / 4194304))) double_tenth))
              = Finite (- 1)"
    using to_double_sum_9 by (simp add: to_float_sum_9)
  have s1: "example_powf (Finite 10) (Finite (- 1)) = Finite (13421773 / 134217728)"
    by (simp add: example_powf_def)
  have d: "fsub (Finite (- (4386225 / 4194304))) (Finite (- 1)) = Finite (- (191921 / 4194304))"
    using to_float_diff_9 by simp
  show ?thesis
    using slider_step_digits_small [where lg = example_log10f and pw = example_powf,
        OF top small l fd s1 d] by (simp add: fgt_def)
qed

lemma slider_step_digits_50:
  "slider_step_digits u example_log10f example_powf (Finite (- 50)) (Finite 50)
     = (Finite (1 / 2), 2)"
proof -
  have top: "slider_top (Finite (- 50)) (Finite 50) = Finite 50"
    by (simp add: slider_top_def to_float_100 fminf_def fmaxf_def)
  have small: "fge (Finite 50) (Finite 100) = False"
    by (simp add: fge_def)
  have l: "example_log10f (fdivc (Finite 50) 100) = Finite (- (10100891 / 33554432))"
    using to_float_half by (simp add: example_log10f_def)
  have fd: "floorf (float_of_double (dadd (Finite (- (10100891 / 33554432))) double_tenth))
              = Finite (- 1)"
    using to_double_sum_half by (simp add: to_float_sum_half)
  have s1: "example_powf (Finite 10) (Finite (- 1)) = Finite (13421773 / 134217728)"
    by (simp add: example_powf_def)
  have d: "fsub (Finite (- (10100891 / 33554432))) (Finite (- 1)) = Finite (5863385 / 8388608)"
    using to_float_diff_half by simp
  have five: "fmulc (Finite (13421773 / 134217728)) 5 = Finite (1 / 2)"
    using to_float_five_tenths by simp
  show ?thesis
    using slider_step_digits_small [where lg = example_log10f and pw = example_powf,
        OF top small l fd s1 d] five
    by (simp add: fgt_def)
qed

lemma slider_top_180: "slider_top (Finite (- 180)) (Finite 180) = Finite 180"
  by (simp add: slider_top_def to_float_360 fminf_def fmaxf_def)

text \<open>A range whose real \<open>top\<close> is at least 100 has a float \<open>top\<close> of at least 100.\<close>

lemma slider_top_ge_100:
  assumes "100 \<le> top_of_range mn mx"
  shows "fge (slider_top (Finite mn) (Finite mx)) (Finite 100)"
proof -
  have d: "100 \<le> mx - mn" and m: "100 \<le> max \<bar>mn\<bar> \<bar>mx\<bar>"
    using assms by (simp_all add: top_of_range_def)
  have "fge (to_float (mx - mn)) (Finite 100)" using d by (rule to_float_ge_100)
  moreover have "fmaxf (Finite \<bar>mn\<bar>) (Finite \<bar>mx\<bar>) = Finite (max \<bar>mn\<bar> \<bar>mx\<bar>)"
    by (simp add: fmaxf_def max_def)
  ultimately show ?thesis
    using m by (cases "to_float (mx - mn)") (auto simp add: slider_top_def fminf_def fge_def)
qed

text \<open>
  Where the rounding shows. An \<open>int\<close> above \<open>2^24\<close> need not be a \<open>float\<close>. For the range
  [0, 7.943282] (the \<open>float\<close> 0x40FE2F5E) and a \<open>log10f\<close> that returns the \<open>float\<close> next to
  -1.1 for \<open>top / 100\<close>, the sum \<open>log10step + .1\<close> is a \<open>double\<close> below -1 whose
  nearest \<open>float\<close> is -1: \<open>fdigits\<close> is -1. For the range [0, \<open>2^-149\<close>], \<open>top / 100\<close>
  is 0; with \<open>log10f(0) = -\<infinity>\<close> the digit count is the conversion of \<open>+\<infinity>\<close> to \<open>int\<close>.
\<close>

lemma int_to_float_16777217: "int_to_float 16777217 = Finite 16777216"
  using round_to_eval [of 24 16777217 "- 126" 24]
  by (simp add: int_to_float_def to_float_def ieee_round_def round_half_even_def)

lemma float_of_bits_40FE2F5E: "float_of_bits 0x40FE2F5E = Finite (8329135 / 1048576)"
  by (simp add: float_of_bits_def Let_def)

lemma to_float_7_94: "to_float (8329135 / 1048576) = Finite (8329135 / 1048576)"
  using round_to_eval [of 2 "8329135 / 1048576" "- 126" 24]
  by (simp add: to_float_def ieee_round_def round_half_even_def)

lemma to_float_7_94_100: "to_float (8329135 / 1048576 / 100) = Finite (10661293 / 134217728)"
  using round_to_eval [of "- 4" "8329135 / 1048576 / 100" "- 126" 24]
  by (simp add: to_float_def ieee_round_def round_half_even_def)

lemma to_double_sum_1_1:
  "to_double (- (9227469 / 8388608) + double_tenth)
     = Finite (- (2251799867372339 / 2251799813685248))"
  using round_to_eval [of 0 "- (9227469 / 8388608) + double_tenth" "- 1022" 53]
  by (simp add: to_double_def ieee_round_def round_half_even_def double_tenth_def)

lemma to_float_sum_1_1:
  "to_float (- (2251799867372339 / 2251799813685248)) = Finite (- 1)"
  using round_to_eval [of 0 "- (2251799867372339 / 2251799813685248)" "- 126" 24]
  by (simp add: to_float_def ieee_round_def round_half_even_def)

lemma to_float_diff_1_1: "to_float (- (838861 / 8388608)) = Finite (- (838861 / 8388608))"
  using round_to_eval [of "- 4" "- (838861 / 8388608)" "- 126" 24]
  by (simp add: to_float_def ieee_round_def round_half_even_def)

lemma slider_step_digits_float_sum:
  assumes "lg (Finite (10661293 / 134217728)) = Finite (- (9227469 / 8388608))"
  shows "slider_step_digits u lg pw (Finite 0) (float_of_bits 0x40FE2F5E)
           = (pw (Finite 10) (Finite (- 1)), 2)"
    and "\<lfloor>- (9227469 / 8388608) + double_tenth\<rfloor> = - 2"
proof -
  have top: "slider_top (Finite 0) (float_of_bits 0x40FE2F5E) = Finite (8329135 / 1048576)"
    by (simp add: float_of_bits_40FE2F5E slider_top_def to_float_7_94 fminf_def fmaxf_def)
  have small: "fge (Finite (8329135 / 1048576)) (Finite 100) = False"
    by (simp add: fge_def)
  have l: "lg (fdivc (Finite (8329135 / 1048576)) 100) = Finite (- (9227469 / 8388608))"
    using to_float_7_94_100 assms by simp
  have fd: "floorf (float_of_double (dadd (Finite (- (9227469 / 8388608))) double_tenth))
              = Finite (- 1)"
    using to_double_sum_1_1 by (simp add: to_float_sum_1_1)
  have d: "fsub (Finite (- (9227469 / 8388608))) (Finite (- 1)) = Finite (- (838861 / 8388608))"
    using to_float_diff_1_1 by simp
  show "slider_step_digits u lg pw (Finite 0) (float_of_bits 0x40FE2F5E)
          = (pw (Finite 10) (Finite (- 1)), 2)"
    using slider_step_digits_small [where lg = lg and pw = pw, OF top small l fd refl d]
    by (simp add: fgt_def)
  show "\<lfloor>- (9227469 / 8388608) + double_tenth\<rfloor> = - 2"
    by (simp add: double_tenth_def floor_eq_iff)
qed

lemma to_float_smallest: "to_float (1 / 2 ^ 149) = Finite (1 / 2 ^ 149)"
  using round_to_subnormal [of "1 / 2 ^ 149" "- 126" 24]
  by (simp add: to_float_def ieee_round_def round_half_even_def)

lemma slider_step_digits_underflow:
  assumes "lg (Finite 0) = NInf"
  shows "slider_step_digits u lg pw (Finite 0) (float_of_bits 1)
           = (pw (Finite 10) NInf, sint (u PInf))"
proof -
  have bits: "float_of_bits 1 = Finite (1 / 2 ^ 149)"
    by (simp add: float_of_bits_def Let_def)
  have top: "slider_top (Finite 0) (float_of_bits 1) = Finite (1 / 2 ^ 149)"
    using to_float_smallest by (simp add: bits slider_top_def fminf_def fmaxf_def)
  have small: "fge (Finite (1 / 2 ^ 149)) (Finite 100) = False"
    by (simp add: fge_def)
  have l: "lg (fdivc (Finite (1 / 2 ^ 149)) 100) = NInf"
    using to_float_tiny assms by simp
  have fd: "floorf (float_of_double (dadd NInf double_tenth)) = NInf"
    by simp
  have d: "fsub NInf NInf = NaN"
    by simp
  show ?thesis
    using slider_step_digits_small [where lg = lg and pw = pw, OF top small l fd refl d]
    by (simp add: fgt_def int_of_float_def float_to_int_def)
qed

section \<open>What the slider binder constructs\<close>

lemma slider_float_result:
  assumes f: "get_f (modules g self) param = Some f"
    and t: "type (header f) = DT_INTROSPECTION_TYPE_FLOAT"
    and sd: "slider_step_digits (indefinite g) (log10f g) (powf g)
               (float_of_bits (Float_Min f)) (float_of_bits (Float_Max f)) = (step, digits)"
  shows "\<exists>g'. dt_bauhaus_slider_from_params self param g = (Some (next_widget g), g')
           \<and> slider_min (widgets g' (next_widget g)) = float_of_bits (Float_Min f)
           \<and> slider_max (widgets g' (next_widget g)) = float_of_bits (Float_Max f)
           \<and> slider_step (widgets g' (next_widget g)) = step
           \<and> slider_digits (widgets g' (next_widget g)) = digits
           \<and> slider_defval (widgets g' (next_widget g))
                = float_of_bits (params (modules g self) (get_p (modules g self) param))
           \<and> signals (widgets g' (next_widget g))
                = [(''value-changed'', Slider_float_callback (self, offset (header f)))]"
proof -
  define mn where "mn = float_of_bits (Float_Min f)"
  define mx where "mx = float_of_bits (Float_Max f)"
  define fmt where "fmt = ''%'' @ (if flt mn (Finite 0) then ''+'' else [])
                             @ ''.0'' @ show_int digits @ ''f''"
  define g1 where "g1 = snd (dt_bauhaus_slider_new_with_range_and_feedback self mn mx step
     (float_of_bits (params (modules g self) (get_p (modules g self) param))) digits 1 g)"
  define g2 where "g2 = (if flt mn (Finite 0)
     then dt_bauhaus_slider_set_format (next_widget g) fmt g1 else g1)"
  define g3 where "g3 = g_signal_connect (next_widget g) ''value-changed''
     (Slider_float_callback (self, offset (header f))) g2"
  define g4 where "g4 = dt_bauhaus_widget_set_label (Some (next_widget g))
     (gettext g (description (header f))) g3"
  have res: "dt_bauhaus_slider_from_params self param g
          = (Some (next_widget g), pack_into_module_widget self (Some (next_widget g)) g4)"
    using f t sd
    by (simp add: dt_bauhaus_slider_from_params_def Let_def split_def g4_def g3_def g2_def
        g1_def fmt_def mn_def mx_def dt_bauhaus_slider_new_with_range_and_feedback_def)
  have nw: "next_widget g < next_widget g4"
    by (simp add: g4_def g3_def g2_def g1_def toolkit_defs)
  obtain pk where pk: "widgets (pack_into_module_widget self (Some (next_widget g)) g4)
      (next_widget g) = (widgets g4 (next_widget g))\<lparr>packed := pk\<rparr>"
    using pack_keeps_widget [OF nw] by blast
  have "slider_min (widgets g4 (next_widget g)) = mn"
       "slider_max (widgets g4 (next_widget g)) = mx"
       "slider_step (widgets g4 (next_widget g)) = step"
       "slider_digits (widgets g4 (next_widget g)) = digits"
       "slider_defval (widgets g4 (next_widget g))
                = float_of_bits (params (modules g self) (get_p (modules g self) param))"
       "signals (widgets g4 (next_widget g))
                = [(''value-changed'', Slider_float_callback (self, offset (header f)))]"
    by (simp_all add: g4_def g3_def g2_def g1_def toolkit_defs blank_widget_def)
  then show ?thesis using res pk by (simp add: mn_def mx_def)
qed

lemma slider_int_result:
  assumes f: "get_f (modules g self) param = Some f"
    and t: "type (header f) = DT_INTROSPECTION_TYPE_INT"
  shows "\<exists>g'. dt_bauhaus_slider_from_params self param g = (Some (next_widget g), g')
           \<and> slider_min (widgets g' (next_widget g)) = int_to_float (Int_Min f)
           \<and> slider_max (widgets g' (next_widget g)) = int_to_float (Int_Max f)
           \<and> slider_step (widgets g' (next_widget g)) = Finite 1
           \<and> slider_digits (widgets g' (next_widget g)) = 0
           \<and> slider_defval (widgets g' (next_widget g))
                = int_to_float (int_of_float (indefinite g) (float_of_bits
                    (params (modules g self) (get_p (modules g self) param))))
           \<and> signals (widgets g' (next_widget g))
                = [(''value-changed'', Slider_int_callback (self, offset (header f)))]"
proof -
  define defval where "defval = int_of_float (indefinite g) (float_of_bits
                    (params (modules g self) (get_p (modules g self) param)))"
  define g1 where "g1 = snd (dt_bauhaus_slider_new_with_range_and_feedback self
     (int_to_float (Int_Min f)) (int_to_float (Int_Max f)) (Finite 1) (int_to_float defval) 0 1 g)"
  define g2 where "g2 = g_signal_connect (next_widget g) ''value-changed''
     (Slider_int_callback (self, offset (header f))) g1"
  define g3 where "g3 = dt_bauhaus_widget_set_label (Some (next_widget g))
     (gettext g (description (header f))) g2"
  have res: "dt_bauhaus_slider_from_params self param g
          = (Some (next_widget g), pack_into_module_widget self (Some (next_widget g)) g3)"
    using f t
    by (simp add: dt_bauhaus_slider_from_params_def Let_def split_def g3_def g2_def
        g1_def defval_def dt_bauhaus_slider_new_with_range_and_feedback_def)
  have nw: "next_widget g < next_widget g3"
    by (simp add: g3_def g2_def g1_def toolkit_defs)
  obtain pk where pk: "widgets (pack_into_module_widget self (Some (next_widget g)) g3)
      (next_widget g) = (widgets g3 (next_widget g))\<lparr>packed := pk\<rparr>"
    using pack_keeps_widget [OF nw] by blast
  have "slider_min (widgets g3 (next_widget g)) = int_to_float (Int_Min f)"
       "slider_max (widgets g3 (next_widget g)) = int_to_float (Int_Max f)"
       "slider_step (widgets g3 (next_widget g)) = Finite 1"
       "slider_digits (widgets g3 (next_widget g)) = 0"
       "slider_defval (widgets g3 (next_widget g)) = int_to_float defval"
       "signals (widgets g3 (next_widget g))
                = [(''value-changed'', Slider_int_callback (self, offset (header f)))]"
    by (simp_all add: g3_def g2_def g1_def toolkit_defs blank_widget_def)
  then show ?thesis using res pk by (simp add: defval_def)
qed

lemma example_descriptors [simp]:
  "get_f (modules example_gui m) ''opacity''
     = Some ((example_field DT_INTROSPECTION_TYPE_FLOAT 0 ''opacity'')
                \<lparr>Float_Min := 0, Float_Max := 0x3F800000\<rparr>)"
  "get_f (modules example_gui m) ''radius''
     = Some ((example_field DT_INTROSPECTION_TYPE_FLOAT 4 ''radius'')
                \<lparr>Float_Min := 0, Float_Max := 0x41100000\<rparr>)"
  "get_f (modules example_gui m) ''shift''
     = Some ((example_field DT_INTROSPECTION_TYPE_FLOAT 8 ''shift'')
                \<lparr>Float_Min := 0xC2480000, Float_Max := 0x42480000\<rparr>)"
  "get_f (modules example_gui m) ''angle''
     = Some ((example_field DT_INTROSPECTION_TYPE_FLOAT 12 ''angle'')
                \<lparr>Float_Min := 0xC3340000, Float_Max := 0x43340000\<rparr>)"
  "get_f (modules example_gui m) ''iterations''
     = Some ((example_field DT_INTROSPECTION_TYPE_INT 16 ''iterations'')
                \<lparr>Int_Min := 0, Int_Max := 10\<rparr>)"
  "get_f (modules example_gui m) ''enabled''
     = Some (example_field DT_INTROSPECTION_TYPE_BOOL 20 ''enabled'')"
  by (simp_all add: example_gui_def example_module_def example_get_f_def)

lemma example_mode [simp]:
  "get_f (modules example_gui m) ''mode''
     = Some ((example_field DT_INTROSPECTION_TYPE_ENUM 24 ''mode'')
                \<lparr>Enum_values := Some
                   [\<lparr>name = Some ''MODE_LINEAR'', val = 0,
                     dt_introspection_type_enum_tuple_t.description = ''linear''\<rparr>,
                    \<lparr>name = Some ''MODE_LOG'', val = 5,
                     dt_introspection_type_enum_tuple_t.description = ''logarithmic''\<rparr>,
                    \<lparr>name = None, val = 0,
                     dt_introspection_type_enum_tuple_t.description = []\<rparr>]\<rparr>)"
  by (simp add: example_gui_def example_module_def example_get_f_def)

lemma example_gui_fresh [simp]:
  "next_widget example_gui = 0"
  "widget (modules example_gui m) = None"
  "gettext example_gui s = s"
  "log10f example_gui = example_log10f"
  "powf example_gui = example_powf"
  "indefinite example_gui a = 0x80000000"
  "params (modules example_gui m) (get_p (modules example_gui m) ''iterations'') = 5"
  by (simp_all add: example_gui_def example_module_def example_get_p_def example_get_f_def
      example_field_def)

lemma to_float_5: "to_float 5 = Finite 5"
  using round_to_eval [of 2 5 "- 126" 24]
  by (simp add: to_float_def ieee_round_def round_half_even_def)

lemma float_to_int_of_int:
  assumes "- (2 ^ 31) \<le> i" "i < 2 ^ 31"
  shows "float_to_int (Finite (of_int i)) = Some (word_of_int i)"
  using assms by (simp add: float_to_int_def)

lemma sint_word_of_int_32:
  assumes "- (2 ^ 31) \<le> i" "i < 2 ^ 31"
  shows "sint (word_of_int i :: 32 word) = i"
  using assms by (simp add: sint_sbintrunc' signed_take_bit_int_eq_self)

text \<open>The digit count \<open>-fdigits\<close> of an exponent below -2 that is an \<open>int\<close>.\<close>

lemma digits_of_exponent:
  assumes "- (2 ^ 31) < e"
  shows "(if flt (Finite (of_int e)) (Finite (- 2))
          then sint (int_of_float u (fneg (Finite (of_int e)))) else 2)
         = (if e < - 2 then - e else 2)"
proof (cases "e < - 2")
  case True
  have "float_to_int (Finite (of_int (- e))) = Some (word_of_int (- e))"
    using assms True by (intro float_to_int_of_int) simp_all
  moreover have "sint (word_of_int (- e) :: 32 word) = - e"
    using assms True by (intro sint_word_of_int_32) simp_all
  ultimately show ?thesis using True by (simp add: int_of_float_def)
next
  case False
  then show ?thesis by simp
qed

text \<open>Bounds on decimal logarithms from powers, and the rule of the specification.\<close>

lemma log10_ge_minus_tenth:
  assumes "0 < x" "1 \<le> 10 * x ^ 10"
  shows "- (1 / 10) \<le> log 10 (x::real)"
proof -
  have "log 10 (1 / 10) \<le> log 10 (x ^ 10)"
    using assms by (subst log_le_cancel_iff) auto
  then have "- 1 \<le> 10 * log 10 x"
    using assms by (simp add: log_nat_power log_divide)
  then show ?thesis by simp
qed

lemma log10_9_100: "log 10 (9 / 100 :: real) = log 10 (9 / 10) - 1"
proof -
  have "(9 / 100 :: real) = (9 / 10) / 10" by simp
  then have "log 10 (9 / 100 :: real) = log 10 ((9 / 10) / 10)" by simp
  also have "\<dots> = log 10 (9 / 10) - log 10 10" by (subst log_divide) auto
  finally show ?thesis by simp
qed

lemma log10_9_10_lower: "- (1 / 10) \<le> log 10 (9 / 10 :: real)"
  by (rule log10_ge_minus_tenth) (simp_all add: power_divide)

lemma log10_9_10_upper: "log 10 (9 / 10 :: real) < 0"
  by simp

lemma floor_log10_9_100: "\<lfloor>log 10 (9 / 100 :: real)\<rfloor> = - 2"
proof -
  have "- 2 \<le> log 10 (9 / 100 :: real)" "log 10 (9 / 100 :: real) < - 1"
    using log10_9_10_lower log10_9_10_upper unfolding log10_9_100 by linarith+
  then show ?thesis by (simp add: floor_eq_iff)
qed


lemma spec_step_digits_eval:
  assumes "\<not> 100 \<le> top_of_range mn mx"
    and "\<lfloor>log 10 (top_of_range mn mx / 100)\<rfloor> = e"
    and "(1 / 2 < log 10 (top_of_range mn mx / 100) - of_int e) = b"
  shows "spec_step_digits mn mx
           = (if b then 10 powr (of_int e) * 5 else 10 powr (of_int e),
              if e < - 2 then - e else 2)"
  unfolding spec_step_digits_def Let_def assms(2) assms(3) using assms(1) by simp


lemma spec_step_digits_0_9: "spec_step_digits 0 9 = (1 / 20, 2)"
proof -
  have top: "top_of_range 0 9 = 9"
    by (simp add: top_of_range_def)
  have e: "\<lfloor>log 10 (top_of_range 0 9 / 100)\<rfloor> = - 2"
    unfolding top by (rule floor_log10_9_100)
  have "- (11 / 10) \<le> log 10 (9 / 100 :: real)"
    using log10_9_10_lower unfolding log10_9_100 by linarith
  then have "1 / 2 < log 10 (9 / 100 :: real) - of_int (- 2)"
    by (simp only: of_int_minus of_int_numeral)
  then have b: "(1 / 2 < log 10 (top_of_range 0 9 / 100) - of_int (- 2)) = True"
    unfolding top by simp
  have "spec_step_digits 0 9
      = (if True then 10 powr (of_int (- 2)) * 5 else 10 powr (of_int (- 2)),
         if (- 2 :: int) < - 2 then - (- 2) else 2)"
    by (rule spec_step_digits_eval [OF _ e b]) (simp add: top)
  then show ?thesis by (simp add: powr_minus_divide)
qed


section \<open>The slider binder\<close>

text \<open>
  C4 (as amended). For every float field with declared range [min, max] the slider binder
  constructs a slider whose step and digit count follow this rule, in the arithmetic of
  the program: \<open>top = fminf(max - min, fmaxf(|min|, |max|))\<close>, the difference rounded to
  \<open>float\<close>. If \<open>top \<ge> 100\<close> the step is 1 and the digit count 2. Otherwise, with
  \<open>l = log10f(top / 100)\<close> (the quotient rounded to \<open>float\<close>) and
  \<open>fd = floorf(l + .1)\<close> (the sum taken in \<open>double\<close> and rounded to \<open>float\<close>), the step
  is \<open>powf(10, fd)\<close>, multiplied by 5 and rounded when \<open>l - fd\<close>, rounded, exceeds 0.5;
  the digit count is 2 unless \<open>fd < -2\<close>, in which case it is \<open>-fd\<close> converted to
  \<open>int\<close>: \<open>-e\<close> when \<open>fd\<close> is an integer \<open>e\<close> above \<open>-2^31\<close>.
\<close>

theorem float_slider_step_digits:
  assumes "get_f (modules g self) param = Some f"
    and "type (header f) = DT_INTROSPECTION_TYPE_FLOAT"
    and "float_of_bits (Float_Min f) = mn"
    and "float_of_bits (Float_Max f) = mx"
    and "fminf (fsub mx mn) (fmaxf (fabsf mn) (fabsf mx)) = tp"
    and "log10f g (fdivc tp 100) = l"
    and "floorf (float_of_double (dadd l double_tenth)) = fd"
  shows "\<exists>slider g'. dt_bauhaus_slider_from_params self param g = (Some slider, g')
           \<and> (fge tp (Finite 100) \<longrightarrow>
                slider_step (widgets g' slider) = Finite 1
                \<and> slider_digits (widgets g' slider) = 2)
           \<and> (\<not> fge tp (Finite 100) \<longrightarrow>
                slider_step (widgets g' slider)
                  = (if fgt (fsub l fd) (Finite (1 / 2))
                     then fmulc (powf g (Finite 10) fd) 5 else powf g (Finite 10) fd)
                \<and> slider_digits (widgets g' slider)
                  = (if flt fd (Finite (- 2))
                     then sint (int_of_float (indefinite g) (fneg fd)) else 2))
           \<and> (\<not> fge tp (Finite 100) \<and> fd = Finite (of_int e) \<and> - (2 ^ 31) < e \<longrightarrow>
                slider_digits (widgets g' slider) = (if e < - 2 then - e else 2))"
proof -
  have tp: "slider_top (float_of_bits (Float_Min f)) (float_of_bits (Float_Max f)) = tp"
    using assms(3-5) by (simp add: slider_top_def)
  show ?thesis
  proof (cases "fge tp (Finite 100)")
    case True
    have "slider_step_digits (indefinite g) (log10f g) (powf g)
            (float_of_bits (Float_Min f)) (float_of_bits (Float_Max f)) = (Finite 1, 2)"
      using tp True by (rule slider_step_digits_large)
    from slider_float_result [OF assms(1,2) this] True show ?thesis by blast
  next
    case False
    then have small: "fge tp (Finite 100) = False" by simp
    have "slider_step_digits (indefinite g) (log10f g) (powf g)
            (float_of_bits (Float_Min f)) (float_of_bits (Float_Max f))
          = (if fgt (fsub l fd) (Finite (1 / 2))
             then fmulc (powf g (Finite 10) fd) 5 else powf g (Finite 10) fd,
             if flt fd (Finite (- 2))
             then sint (int_of_float (indefinite g) (fneg fd)) else 2)"
      using tp small assms(6,7) refl refl
      by (rule slider_step_digits_small [where lg = "log10f g" and pw = "powf g"])
    from slider_float_result [OF assms(1,2) this] obtain g' where r:
      "dt_bauhaus_slider_from_params self param g = (Some (next_widget g), g')"
      "slider_step (widgets g' (next_widget g))
         = (if fgt (fsub l fd) (Finite (1 / 2))
            then fmulc (powf g (Finite 10) fd) 5 else powf g (Finite 10) fd)"
      "slider_digits (widgets g' (next_widget g))
         = (if flt fd (Finite (- 2))
            then sint (int_of_float (indefinite g) (fneg fd)) else 2)"
      by blast
    have "fd = Finite (of_int e) \<and> - (2 ^ 31) < e \<longrightarrow>
            slider_digits (widgets g' (next_widget g)) = (if e < - 2 then - e else 2)"
      using r(3) digits_of_exponent [of e "indefinite g"] by auto
    with r False show ?thesis by blast
  qed
qed

theorem float_slider_step_digits_witness:
  "get_f (modules example_gui 0) ''opacity''
     = Some ((example_field DT_INTROSPECTION_TYPE_FLOAT 0 ''opacity'')
                \<lparr>Float_Min := 0, Float_Max := 0x3F800000\<rparr>)
   \<and> float_of_bits 0 = Finite 0 \<and> float_of_bits 0x3F800000 = Finite 1
   \<and> fminf (fsub (Finite 1) (Finite 0)) (fmaxf (fabsf (Finite 0)) (fabsf (Finite 1))) = Finite 1
   \<and> log10f example_gui (fdivc (Finite 1) 100) = Finite (- 2)
   \<and> floorf (float_of_double (dadd (Finite (- 2)) double_tenth)) = Finite (of_int (- 2))
   \<and> \<not> fge (Finite 1) (Finite 100)
   \<and> (\<exists>slider g'. dt_bauhaus_slider_from_params 0 ''opacity'' example_gui = (Some slider, g')
         \<and> slider_step (widgets g' slider) = Finite (5368709 / 536870912)
         \<and> slider_digits (widgets g' slider) = 2)"
proof -
  have tp: "fminf (fsub (Finite 1) (Finite 0)) (fmaxf (fabsf (Finite 0)) (fabsf (Finite 1)))
              = Finite 1"
    by (simp add: to_float_1 fminf_def fmaxf_def)
  have l: "log10f example_gui (fdivc (Finite 1) 100) = Finite (- 2)"
    by (simp add: to_float_hundredth example_log10f_def)
  have fd: "floorf (float_of_double (dadd (Finite (- 2)) double_tenth)) = Finite (of_int (- 2))"
    using to_double_sum by (simp add: to_float_sum)
  have small: "\<not> fge (Finite 1) (Finite 100)"
    by (simp add: fge_def)
  have "\<exists>slider g'. dt_bauhaus_slider_from_params 0 ''opacity'' example_gui = (Some slider, g')
         \<and> slider_step (widgets g' slider) = Finite (5368709 / 536870912)
         \<and> slider_digits (widgets g' slider) = 2"
    using float_slider_step_digits [where g = example_gui and self = 0 and param = "''opacity''"
        and f = "(example_field DT_INTROSPECTION_TYPE_FLOAT 0 ''opacity'')
                   \<lparr>Float_Min := 0, Float_Max := 0x3F800000\<rparr>"
        and mn = "Finite 0" and mx = "Finite 1" and tp = "Finite 1" and l = "Finite (- 2)"
        and fd = "Finite (of_int (- 2))" and e = "- 2", OF _ _ _ _ tp l fd] small
    by (simp add: example_field_def fgt_def example_powf_def)
  with tp l fd small show ?thesis by simp
qed

text \<open>
  C4 as stated takes the exponent \<open>floor(log10(top/100))\<close>. For the range [0, 9] that
  rule gives the step 0.05; the binder takes \<open>floorf(log10f(0.09f) + .1) = -1\<close> and
  constructs a slider with the step \<open>powf(10, -1)\<close>, the \<open>float\<close> next to 0.1.
\<close>

theorem spec_step_rule_counterexample:
  "get_f (modules example_gui 0) ''radius''
     = Some ((example_field DT_INTROSPECTION_TYPE_FLOAT 4 ''radius'')
                \<lparr>Float_Min := 0, Float_Max := 0x41100000\<rparr>)
   \<and> float_of_bits 0 = Finite 0 \<and> float_of_bits 0x41100000 = Finite 9
   \<and> spec_step_digits 0 9 = (1 / 20, 2)
   \<and> (\<exists>slider g'. dt_bauhaus_slider_from_params 0 ''radius'' example_gui = (Some slider, g')
         \<and> slider_step (widgets g' slider) = Finite (13421773 / 134217728)
         \<and> slider_digits (widgets g' slider) = 2
         \<and> slider_step (widgets g' slider) \<noteq> Finite (fst (spec_step_digits 0 9)))"
proof -
  have "\<exists>g'. dt_bauhaus_slider_from_params 0 ''radius'' example_gui
                  = (Some (next_widget example_gui), g')
           \<and> slider_step (widgets g' (next_widget example_gui)) = Finite (13421773 / 134217728)
           \<and> slider_digits (widgets g' (next_widget example_gui)) = 2"
    using slider_float_result [of example_gui 0 "''radius''"
        "(example_field DT_INTROSPECTION_TYPE_FLOAT 4 ''radius'')
           \<lparr>Float_Min := 0, Float_Max := 0x41100000\<rparr>" "Finite (13421773 / 134217728)" 2]
    by (auto simp add: example_field_def slider_step_digits_0_9)
  then obtain slider g' where r:
      "dt_bauhaus_slider_from_params 0 ''radius'' example_gui = (Some slider, g')"
      "slider_step (widgets g' slider) = Finite (13421773 / 134217728)"
      "slider_digits (widgets g' slider) = 2"
    by blast
  have "slider_step (widgets g' slider) \<noteq> Finite (fst (spec_step_digits 0 9))"
    using r(2) by (simp add: spec_step_digits_0_9)
  with r spec_step_digits_0_9 show ?thesis by simp
qed

text \<open>
  C5. For the integer field of the example, which holds 5, the binder constructs a
  slider over [0, 10] with step 1 and 0 digits; its default value is 0, not 5: line 168
  reads the field through a \<open>float\<close> pointer and converts that number to \<open>int\<close>.
\<close>

theorem int_slider_default_evaluation:
  "int_to_float (load_field example_gui (0, 16)) = Finite 5
   \<and> get_p (modules example_gui 0) ''iterations'' = 16
   \<and> (\<exists>slider g'. dt_bauhaus_slider_from_params 0 ''iterations'' example_gui
                     = (Some slider, g')
         \<and> slider_min (widgets g' slider) = Finite 0
         \<and> slider_max (widgets g' slider) = Finite 10
         \<and> slider_step (widgets g' slider) = Finite 1
         \<and> slider_digits (widgets g' slider) = 0
         \<and> slider_defval (widgets g' slider) = Finite 0)"
proof -
  have held: "int_to_float (load_field example_gui (0, 16)) = Finite 5"
    by (simp add: int_to_float_def to_float_5)
  have ptr: "get_p (modules example_gui 0) ''iterations'' = 16"
    by (simp add: example_gui_def example_module_def example_get_p_def example_get_f_def
        example_field_def)
  have "\<exists>g'. dt_bauhaus_slider_from_params 0 ''iterations'' example_gui
                = (Some (next_widget example_gui), g')
           \<and> slider_min (widgets g' (next_widget example_gui)) = int_to_float 0
           \<and> slider_max (widgets g' (next_widget example_gui)) = int_to_float 10
           \<and> slider_step (widgets g' (next_widget example_gui)) = Finite 1
           \<and> slider_digits (widgets g' (next_widget example_gui)) = 0
           \<and> slider_defval (widgets g' (next_widget example_gui)) = int_to_float 0
           \<and> signals (widgets g' (next_widget example_gui))
                = [(''value-changed'', Slider_int_callback (0, 16))]"
    using slider_int_result [of example_gui 0 "''iterations''"
        "(example_field DT_INTROSPECTION_TYPE_INT 16 ''iterations'')
           \<lparr>Int_Min := 0, Int_Max := 10\<rparr>"]
    by (simp add: example_field_def int_of_float_bits_5)
  then have "\<exists>slider g'. dt_bauhaus_slider_from_params 0 ''iterations'' example_gui
                     = (Some slider, g')
         \<and> slider_min (widgets g' slider) = Finite 0
         \<and> slider_max (widgets g' slider) = Finite 10
         \<and> slider_step (widgets g' slider) = Finite 1
         \<and> slider_digits (widgets g' slider) = 0
         \<and> slider_defval (widgets g' slider) = Finite 0"
    by (auto simp add: int_to_float_10)
  with held ptr show ?thesis by simp
qed

text \<open>
  A descriptor of a type the binder does not handle: the slider binder returns a null
  pointer; the choice-list and toggle binders return a control labelled with their
  message and connect no handler.
\<close>

lemma slider_type_mismatch_null:
  assumes "get_f (modules g self) param = Some f"
    and "type (header f) \<noteq> DT_INTROSPECTION_TYPE_FLOAT"
    and "type (header f) \<noteq> DT_INTROSPECTION_TYPE_INT"
  shows "\<exists>g'. dt_bauhaus_slider_from_params self param g = (None, g')"
  using assms by (simp add: dt_bauhaus_slider_from_params_def Let_def)

lemma combobox_type_mismatch_placeholder:
  assumes "get_f (modules g self) param = Some f"
    and "type (header f) \<noteq> DT_INTROSPECTION_TYPE_ENUM"
    and "type (header f) \<noteq> DT_INTROSPECTION_TYPE_INT"
    and "type (header f) \<noteq> DT_INTROSPECTION_TYPE_UINT"
    and "type (header f) \<noteq> DT_INTROSPECTION_TYPE_BOOL"
  shows "fst (dt_bauhaus_combobox_from_params self param g) = next_widget g
       \<and> label (widgets (snd (dt_bauhaus_combobox_from_params self param g)) (next_widget g))
           = quoted param '' is not an enum/int/bool/combobox parameter''
       \<and> signals (widgets (snd (dt_bauhaus_combobox_from_params self param g)) (next_widget g))
           = []"
proof -
  define gpre where "gpre =
    dt_bauhaus_widget_set_label (Some (next_widget g))
      (quoted param '' is not an enum/int/bool/combobox parameter'')
      (snd (dt_bauhaus_combobox_new self g))"
  have res: "dt_bauhaus_combobox_from_params self param g
      = (next_widget g, pack_into_module_widget self (Some (next_widget g)) gpre)"
    using assms
    by (simp add: dt_bauhaus_combobox_from_params_def Let_def split_def gpre_def
        dt_bauhaus_combobox_new_def)
  have nw: "next_widget g < next_widget gpre"
    by (simp add: gpre_def toolkit_defs)
  obtain pk where pk: "widgets (pack_into_module_widget self (Some (next_widget g)) gpre)
      (next_widget g) = (widgets gpre (next_widget g))\<lparr>packed := pk\<rparr>"
    using pack_keeps_widget [OF nw] by blast
  have "label (widgets gpre (next_widget g))
          = quoted param '' is not an enum/int/bool/combobox parameter''"
       "signals (widgets gpre (next_widget g)) = []"
    by (simp_all add: gpre_def toolkit_defs blank_widget_def)
  then show ?thesis by (simp add: res pk)
qed

lemma toggle_type_mismatch_placeholder:
  assumes "get_f (modules g self) param = Some f"
    and "type (header f) \<noteq> DT_INTROSPECTION_TYPE_BOOL"
  shows "fst (dt_bauhaus_toggle_from_params self param g) = next_widget g
       \<and> label (widgets (snd (dt_bauhaus_toggle_from_params self param g)) (next_widget g))
           = quoted param '' is not a bool/togglebutton parameter''
       \<and> signals (widgets (snd (dt_bauhaus_toggle_from_params self param g)) (next_widget g))
           = []"
proof -
  define gpre where "gpre =
    snd (gtk_check_button_new_with_label
           (quoted param '' is not a bool/togglebutton parameter'') g)"
  have res: "dt_bauhaus_toggle_from_params self param g
      = (next_widget g, pack_into_module_widget self (Some (next_widget g)) gpre)"
    using assms
    by (simp add: dt_bauhaus_toggle_from_params_def Let_def split_def gpre_def
        gtk_check_button_new_with_label_def)
  have nw: "next_widget g < next_widget gpre"
    by (simp add: gpre_def toolkit_defs)
  obtain pk where pk: "widgets (pack_into_module_widget self (Some (next_widget g)) gpre)
      (next_widget g) = (widgets gpre (next_widget g))\<lparr>packed := pk\<rparr>"
    using pack_keeps_widget [OF nw] by blast
  have "label (widgets gpre (next_widget g))
          = quoted param '' is not a bool/togglebutton parameter''"
       "signals (widgets gpre (next_widget g)) = []"
    by (simp_all add: gpre_def toolkit_defs blank_widget_def)
  then show ?thesis by (simp add: res pk)
qed


text \<open>
  C6. The boolean field of the example has a descriptor, and its type is neither float
  nor int. The slider binder creates no control for it: the pointer it labels, packs
  into the newly created container and returns is null.
\<close>

theorem slider_type_mismatch_evaluation:
  "get_f (modules example_gui 0) ''enabled''
     = Some (example_field DT_INTROSPECTION_TYPE_BOOL 20 ''enabled'')
   \<and> (\<exists>g'. dt_bauhaus_slider_from_params 0 ''enabled'' example_gui = (None, g')
         \<and> widget (modules g' 0) = Some 0
         \<and> kind (widgets g' 0) = Box
         \<and> packed (widgets g' 0) = [None]
         \<and> next_widget g' = 1)"
  by (simp add: dt_bauhaus_slider_from_params_def Let_def example_field_def
      dt_bauhaus_widget_set_label_def pack_into_module_widget_def gtk_box_new_def
      gtk_box_pack_start_def split_def blank_widget_def)

text \<open>
  C7 (as amended). The step of the constructed slider is 1 for every integer field, and
  for every float field whose \<open>top = fminf(max - min, fmaxf(|min|, |max|))\<close>, as the
  program computes it, is at least 100; that is the case for every finite declared range
  whose \<open>min(max-min, max(|min|,|max|))\<close> is at least 100.
\<close>

theorem step_is_one:
  assumes "get_f (modules g self) param = Some f"
  shows "(type (header f) = DT_INTROSPECTION_TYPE_INT \<longrightarrow>
          (\<exists>slider g'. dt_bauhaus_slider_from_params self param g = (Some slider, g')
             \<and> slider_step (widgets g' slider) = Finite 1))
       \<and> (type (header f) = DT_INTROSPECTION_TYPE_FLOAT
            \<and> fge (slider_top (float_of_bits (Float_Min f)) (float_of_bits (Float_Max f)))
                  (Finite 100) \<longrightarrow>
          (\<exists>slider g'. dt_bauhaus_slider_from_params self param g = (Some slider, g')
             \<and> slider_step (widgets g' slider) = Finite 1))
       \<and> (type (header f) = DT_INTROSPECTION_TYPE_FLOAT
            \<and> float_of_bits (Float_Min f) = Finite mn \<and> float_of_bits (Float_Max f) = Finite mx
            \<and> 100 \<le> top_of_range mn mx \<longrightarrow>
          (\<exists>slider g'. dt_bauhaus_slider_from_params self param g = (Some slider, g')
             \<and> slider_step (widgets g' slider) = Finite 1))"
proof -
  have large: "\<exists>slider g'. dt_bauhaus_slider_from_params self param g = (Some slider, g')
             \<and> slider_step (widgets g' slider) = Finite 1"
    if t: "type (header f) = DT_INTROSPECTION_TYPE_FLOAT"
      and ge: "fge (slider_top (float_of_bits (Float_Min f)) (float_of_bits (Float_Max f)))
                 (Finite 100)"
  proof -
    have "slider_step_digits (indefinite g) (log10f g) (powf g)
            (float_of_bits (Float_Min f)) (float_of_bits (Float_Max f)) = (Finite 1, 2)"
      using refl ge by (rule slider_step_digits_large)
    from slider_float_result [OF assms t this] show ?thesis by blast
  qed
  show ?thesis
  proof (intro conjI impI)
    assume "type (header f) = DT_INTROSPECTION_TYPE_INT"
    from slider_int_result [OF assms this]
    show "\<exists>slider g'. dt_bauhaus_slider_from_params self param g = (Some slider, g')
        \<and> slider_step (widgets g' slider) = Finite 1"
      by blast
  next
    assume "type (header f) = DT_INTROSPECTION_TYPE_FLOAT
        \<and> fge (slider_top (float_of_bits (Float_Min f)) (float_of_bits (Float_Max f)))
              (Finite 100)"
    then show "\<exists>slider g'. dt_bauhaus_slider_from_params self param g = (Some slider, g')
        \<and> slider_step (widgets g' slider) = Finite 1"
      using large by blast
  next
    assume a: "type (header f) = DT_INTROSPECTION_TYPE_FLOAT
        \<and> float_of_bits (Float_Min f) = Finite mn \<and> float_of_bits (Float_Max f) = Finite mx
        \<and> 100 \<le> top_of_range mn mx"
    then have "fge (slider_top (float_of_bits (Float_Min f)) (float_of_bits (Float_Max f)))
                 (Finite 100)"
      using slider_top_ge_100 [of mn mx] by simp
    with a show "\<exists>slider g'. dt_bauhaus_slider_from_params self param g = (Some slider, g')
        \<and> slider_step (widgets g' slider) = Finite 1"
      using large by blast
  qed
qed

theorem step_is_one_witness:
  "get_f (modules example_gui 0) ''iterations''
     = Some ((example_field DT_INTROSPECTION_TYPE_INT 16 ''iterations'')
                \<lparr>Int_Min := 0, Int_Max := 10\<rparr>)
   \<and> (\<exists>slider g'. dt_bauhaus_slider_from_params 0 ''iterations'' example_gui
                     = (Some slider, g')
         \<and> slider_step (widgets g' slider) = Finite 1)
   \<and> get_f (modules example_gui 0) ''angle''
     = Some ((example_field DT_INTROSPECTION_TYPE_FLOAT 12 ''angle'')
                \<lparr>Float_Min := 0xC3340000, Float_Max := 0x43340000\<rparr>)
   \<and> float_of_bits 0xC3340000 = Finite (- 180) \<and> float_of_bits 0x43340000 = Finite 180
   \<and> fge (slider_top (Finite (- 180)) (Finite 180)) (Finite 100)
   \<and> 100 \<le> top_of_range (- 180) 180
   \<and> (\<exists>slider g'. dt_bauhaus_slider_from_params 0 ''angle'' example_gui = (Some slider, g')
         \<and> slider_step (widgets g' slider) = Finite 1)"
proof -
  have top: "top_of_range (- 180) 180 = 180"
    by (simp add: top_of_range_def)
  have ge: "fge (slider_top (Finite (- 180)) (Finite 180)) (Finite 100)"
    by (simp add: slider_top_180 fge_def)
  show ?thesis
    using step_is_one [of example_gui 0 "''iterations''"
        "(example_field DT_INTROSPECTION_TYPE_INT 16 ''iterations'')
           \<lparr>Int_Min := 0, Int_Max := 10\<rparr>" 0 0]
      step_is_one [of example_gui 0 "''angle''"
        "(example_field DT_INTROSPECTION_TYPE_FLOAT 12 ''angle'')
           \<lparr>Float_Min := 0xC3340000, Float_Max := 0x43340000\<rparr>" "- 180" 180]
    by (simp add: example_field_def top ge)
qed

text \<open>
  C7 as stated asks for the step 1 whenever \<open>max - min \<ge> 100\<close>. The range [-50, 50]
  has \<open>max - min = 100\<close> and \<open>top = 50\<close>; the binder constructs a slider with the
  step 0.5.
\<close>

theorem wide_range_step_counterexample:
  "get_f (modules example_gui 0) ''shift''
     = Some ((example_field DT_INTROSPECTION_TYPE_FLOAT 8 ''shift'')
                \<lparr>Float_Min := 0xC2480000, Float_Max := 0x42480000\<rparr>)
   \<and> float_of_bits 0xC2480000 = Finite (- 50) \<and> float_of_bits 0x42480000 = Finite 50
   \<and> (100 :: real) \<le> 50 - (- 50)
   \<and> fsub (Finite 50) (Finite (- 50)) = Finite 100
   \<and> (\<exists>slider g'. dt_bauhaus_slider_from_params 0 ''shift'' example_gui = (Some slider, g')
         \<and> slider_step (widgets g' slider) = Finite (1 / 2)
         \<and> slider_step (widgets g' slider) \<noteq> Finite 1)"
proof -
  have "\<exists>g'. dt_bauhaus_slider_from_params 0 ''shift'' example_gui
                  = (Some (next_widget example_gui), g')
           \<and> slider_step (widgets g' (next_widget example_gui)) = Finite (1 / 2)"
    using slider_float_result [of example_gui 0 "''shift''"
        "(example_field DT_INTROSPECTION_TYPE_FLOAT 8 ''shift'')
           \<lparr>Float_Min := 0xC2480000, Float_Max := 0x42480000\<rparr>" "Finite (1 / 2)" 2]
    by (auto simp add: example_field_def slider_step_digits_50)
  then obtain slider g' where r:
      "dt_bauhaus_slider_from_params 0 ''shift'' example_gui = (Some slider, g')"
      "slider_step (widgets g' slider) = Finite (1 / 2)"
    by blast
  have "slider_step (widgets g' slider) \<noteq> Finite 1"
    using r(2) by simp
  moreover have "fsub (Finite 50) (Finite (- 50)) = Finite 100"
    by (simp add: to_float_100)
  ultimately show ?thesis using r by simp
qed

section \<open>The choice-list binder\<close>

lemma combobox_bool_result:
  assumes "get_f (modules g self) param = Some f"
    and "type (header f) = DT_INTROSPECTION_TYPE_BOOL"
  shows "fst (dt_bauhaus_combobox_from_params self param g) = next_widget g
       \<and> combo_entries (widgets (snd (dt_bauhaus_combobox_from_params self param g)) (next_widget g))
           = [(gettext g ''no'', None), (gettext g ''yes'', None)]
       \<and> signals (widgets (snd (dt_bauhaus_combobox_from_params self param g)) (next_widget g))
           = [(''value-changed'', Combobox_bool_callback (self, offset (header f)))]
       \<and> label (widgets (snd (dt_bauhaus_combobox_from_params self param g)) (next_widget g))
           = gettext g (description (header f))"
proof -
  define gpre where "gpre =
    g_signal_connect (next_widget g) ''value-changed''
      (Combobox_bool_callback (self, offset (header f)))
      (dt_bauhaus_combobox_add (next_widget g) (gettext g ''yes'')
        (dt_bauhaus_combobox_add (next_widget g) (gettext g ''no'')
          (dt_bauhaus_widget_set_label (Some (next_widget g)) (gettext g (description (header f)))
            (snd (dt_bauhaus_combobox_new self g)))))"
  have res: "dt_bauhaus_combobox_from_params self param g
      = (next_widget g, pack_into_module_widget self (Some (next_widget g)) gpre)"
    using assms
    by (simp add: dt_bauhaus_combobox_from_params_def Let_def split_def gpre_def
        dt_bauhaus_combobox_new_def)
  have nw: "next_widget g < next_widget gpre"
    by (simp add: gpre_def toolkit_defs)
  obtain pk where pk: "widgets (pack_into_module_widget self (Some (next_widget g)) gpre)
      (next_widget g) = (widgets gpre (next_widget g))\<lparr>packed := pk\<rparr>"
    using pack_keeps_widget [OF nw] by blast
  have "combo_entries (widgets gpre (next_widget g))
          = [(gettext g ''no'', None), (gettext g ''yes'', None)]"
       "signals (widgets gpre (next_widget g))
          = [(''value-changed'', Combobox_bool_callback (self, offset (header f)))]"
       "label (widgets gpre (next_widget g)) = gettext g (description (header f))"
    by (simp_all add: gpre_def toolkit_defs blank_widget_def)
  then show ?thesis by (simp add: res pk)
qed

lemma combobox_enum_result:
  assumes "get_f (modules g self) param = Some f"
    and "type (header f) = DT_INTROSPECTION_TYPE_ENUM"
  shows "fst (dt_bauhaus_combobox_from_params self param g) = next_widget g
       \<and> combo_entries (widgets (snd (dt_bauhaus_combobox_from_params self param g)) (next_widget g))
           = (case Enum_values f of None \<Rightarrow> []
              | Some tuples \<Rightarrow> enum_choices (gettext g) tuples)
       \<and> signals (widgets (snd (dt_bauhaus_combobox_from_params self param g)) (next_widget g))
           = [(''value-changed'', Combobox_enum_callback (self, offset (header f)))]
       \<and> label (widgets (snd (dt_bauhaus_combobox_from_params self param g)) (next_widget g))
           = gettext g (description (header f))"
proof -
  define ga where "ga =
    dt_bauhaus_widget_set_label (Some (next_widget g)) (gettext g (description (header f)))
      (snd (dt_bauhaus_combobox_new self g))"
  define gpre where "gpre =
    g_signal_connect (next_widget g) ''value-changed''
      (Combobox_enum_callback (self, offset (header f)))
      (case Enum_values f of None \<Rightarrow> ga
       | Some tuples \<Rightarrow> add_enum_entries (next_widget g) tuples ga)"
  have res: "dt_bauhaus_combobox_from_params self param g
      = (next_widget g, pack_into_module_widget self (Some (next_widget g)) gpre)"
    using assms
    by (simp add: dt_bauhaus_combobox_from_params_def Let_def split_def gpre_def ga_def
        dt_bauhaus_combobox_new_def cong: option.case_cong)
  have nw: "next_widget g < next_widget gpre"
    by (simp add: gpre_def ga_def toolkit_defs add_enum_entries_eq split: option.splits)
  obtain pk where pk: "widgets (pack_into_module_widget self (Some (next_widget g)) gpre)
      (next_widget g) = (widgets gpre (next_widget g))\<lparr>packed := pk\<rparr>"
    using pack_keeps_widget [OF nw] by blast
  have "combo_entries (widgets gpre (next_widget g))
          = (case Enum_values f of None \<Rightarrow> []
             | Some tuples \<Rightarrow> enum_choices (gettext g) tuples)"
       "signals (widgets gpre (next_widget g))
          = [(''value-changed'', Combobox_enum_callback (self, offset (header f)))]"
       "label (widgets gpre (next_widget g)) = gettext g (description (header f))"
    by (simp_all add: gpre_def ga_def toolkit_defs add_enum_entries_eq blank_widget_def
        split: option.splits)
  then show ?thesis by (simp add: res pk)
qed

text \<open>
  C8. For a boolean field the choice-list binder returns a combobox with exactly the two
  choices "no" and "yes" (translated, in this order, so at the indices 0 and 1, without
  auxiliary data), connected to \<open>generic_combobox_bool_callback\<close> on the field. For an
  enumeration field it returns a combobox with one choice per entry of the table up to
  its terminating entry, in the table's order, each with the entry's translated
  description as label and the entry's value as auxiliary datum, connected to
  \<open>generic_combobox_enum_callback\<close> on the field. With the reset state inactive the
  enum callback stores the auxiliary datum of the selection when there is one and the
  selection index otherwise; the boolean callback stores the selection index.
\<close>

theorem combobox_choices_and_handlers:
  assumes "get_f (modules g self) param = Some f"
  shows "(type (header f) = DT_INTROSPECTION_TYPE_BOOL \<longrightarrow>
           (case dt_bauhaus_combobox_from_params self param g of
              (combobox, g') \<Rightarrow>
                combo_entries (widgets g' combobox)
                  = [(gettext g ''no'', None), (gettext g ''yes'', None)]
                \<and> signals (widgets g' combobox)
                  = [(''value-changed'', Combobox_bool_callback (self, offset (header f)))]))
       \<and> (type (header f) = DT_INTROSPECTION_TYPE_ENUM \<and> Enum_values f = Some tuples \<longrightarrow>
           (case dt_bauhaus_combobox_from_params self param g of
              (combobox, g') \<Rightarrow>
                combo_entries (widgets g' combobox)
                  = map (\<lambda>t. (gettext g (dt_introspection_type_enum_tuple_t.description t),
                               Some (val t)))
                      (takeWhile (\<lambda>t. name t \<noteq> None) tuples)
                \<and> signals (widgets g' combobox)
                  = [(''value-changed'', Combobox_enum_callback (self, offset (header f)))]))
       \<and> (reset g = 0 \<longrightarrow>
           load_field (generic_combobox_enum_callback w field g) field
             = (case dt_bauhaus_combobox_get_data g w of
                  Some d \<Rightarrow> d
                | None \<Rightarrow> dt_bauhaus_combobox_get g w))
       \<and> (reset g = 0 \<longrightarrow>
           load_field (generic_combobox_bool_callback w field g) field
             = dt_bauhaus_combobox_get g w)"
proof (intro conjI impI)
  assume t: "type (header f) = DT_INTROSPECTION_TYPE_BOOL"
  from combobox_bool_result [OF assms t]
  show "case dt_bauhaus_combobox_from_params self param g of
              (combobox, g') \<Rightarrow>
                combo_entries (widgets g' combobox)
                  = [(gettext g ''no'', None), (gettext g ''yes'', None)]
                \<and> signals (widgets g' combobox)
                  = [(''value-changed'', Combobox_bool_callback (self, offset (header f)))]"
    by (auto simp add: split_def)
next
  assume t: "type (header f) = DT_INTROSPECTION_TYPE_ENUM \<and> Enum_values f = Some tuples"
  then have ty: "type (header f) = DT_INTROSPECTION_TYPE_ENUM" by simp
  from combobox_enum_result [OF assms ty] t
  show "case dt_bauhaus_combobox_from_params self param g of
              (combobox, g') \<Rightarrow>
                combo_entries (widgets g' combobox)
                  = map (\<lambda>t. (gettext g (dt_introspection_type_enum_tuple_t.description t),
                               Some (val t)))
                      (takeWhile (\<lambda>t. name t \<noteq> None) tuples)
                \<and> signals (widgets g' combobox)
                  = [(''value-changed'', Combobox_enum_callback (self, offset (header f)))]"
    by (auto simp add: split_def enum_choices_def)
next
  assume "reset g = 0"
  then show "load_field (generic_combobox_enum_callback w field g) field
             = (case dt_bauhaus_combobox_get_data g w of
                  Some d \<Rightarrow> d
                | None \<Rightarrow> dt_bauhaus_combobox_get g w)"
    by (simp add: generic_combobox_enum_callback_def Let_def split: option.splits)
next
  assume "reset g = 0"
  then show "load_field (generic_combobox_bool_callback w field g) field
             = dt_bauhaus_combobox_get g w"
    by (simp add: generic_combobox_bool_callback_def Let_def)
qed

theorem combobox_choices_and_handlers_witness:
  "get_f (modules example_gui 0) ''enabled''
     = Some (example_field DT_INTROSPECTION_TYPE_BOOL 20 ''enabled'')
   \<and> (case dt_bauhaus_combobox_from_params 0 ''enabled'' example_gui of
        (combobox, g') \<Rightarrow>
          combo_entries (widgets g' combobox) = [(''no'', None), (''yes'', None)]
          \<and> signals (widgets g' combobox)
               = [(''value-changed'', Combobox_bool_callback (0, 20))])
   \<and> (case dt_bauhaus_combobox_from_params 0 ''mode'' example_gui of
        (combobox, g') \<Rightarrow>
          combo_entries (widgets g' combobox)
            = [(''linear'', Some 0), (''logarithmic'', Some 5)]
          \<and> signals (widgets g' combobox)
               = [(''value-changed'', Combobox_enum_callback (0, 24))])
   \<and> reset example_gui = 0
   \<and> load_field (generic_combobox_enum_callback 0 (0, 24) example_gui) (0, 24) = 5
   \<and> load_field (generic_combobox_bool_callback 0 (0, 20) example_gui) (0, 20) = 1"
  using combobox_choices_and_handlers [of example_gui 0 "''enabled''"
      "example_field DT_INTROSPECTION_TYPE_BOOL 20 ''enabled''" "[]" 0 "(0, 20)"]
    combobox_choices_and_handlers [of example_gui 0 "''mode''"
      "(example_field DT_INTROSPECTION_TYPE_ENUM 24 ''mode'')
                \<lparr>Enum_values := Some
                   [\<lparr>name = Some ''MODE_LINEAR'', val = 0,
                     dt_introspection_type_enum_tuple_t.description = ''linear''\<rparr>,
                    \<lparr>name = Some ''MODE_LOG'', val = 5,
                     dt_introspection_type_enum_tuple_t.description = ''logarithmic''\<rparr>,
                    \<lparr>name = None, val = 0,
                     dt_introspection_type_enum_tuple_t.description = []\<rparr>]\<rparr>"
      "[\<lparr>name = Some ''MODE_LINEAR'', val = 0,
                     dt_introspection_type_enum_tuple_t.description = ''linear''\<rparr>,
                    \<lparr>name = Some ''MODE_LOG'', val = 5,
                     dt_introspection_type_enum_tuple_t.description = ''logarithmic''\<rparr>,
                    \<lparr>name = None, val = 0,
                     dt_introspection_type_enum_tuple_t.description = []\<rparr>]" 0 "(0, 24)"]
  by (simp add: example_field_def split_def)

section \<open>What a binder call leaves alone\<close>

text \<open>
  C10. A call of any of the three binders, for any module, any parameter name and any
  state, leaves the parameter block of every module, the recorded calls (hook, color
  picker reset, history commit) and the reset state as they were.
\<close>

theorem binders_only_construct:
  "(case dt_bauhaus_slider_from_params self param g of
      (w, g') \<Rightarrow>
        (\<forall>m. params (modules g' m) = params (modules g m))
        \<and> events g' = events g \<and> reset g' = reset g)
   \<and> (case dt_bauhaus_combobox_from_params self param g of
        (w, g') \<Rightarrow>
          (\<forall>m. params (modules g' m) = params (modules g m))
          \<and> events g' = events g \<and> reset g' = reset g)
   \<and> (case dt_bauhaus_toggle_from_params self param g of
        (w, g') \<Rightarrow>
          (\<forall>m. params (modules g' m) = params (modules g m))
          \<and> events g' = events g \<and> reset g' = reset g)"
proof (intro conjI)
  show "case dt_bauhaus_slider_from_params self param g of
      (w, g') \<Rightarrow>
        (\<forall>m. params (modules g' m) = params (modules g m))
        \<and> events g' = events g \<and> reset g' = reset g"
    by (simp add: dt_bauhaus_slider_from_params_def Let_def split_def toolkit_defs
        split: option.splits)
next
  show "case dt_bauhaus_combobox_from_params self param g of
        (w, g') \<Rightarrow>
          (\<forall>m. params (modules g' m) = params (modules g m))
          \<and> events g' = events g \<and> reset g' = reset g"
    by (simp add: dt_bauhaus_combobox_from_params_def Let_def split_def toolkit_defs
        add_enum_entries_eq split: option.splits)
next
  show "case dt_bauhaus_toggle_from_params self param g of
        (w, g') \<Rightarrow>
          (\<forall>m. params (modules g' m) = params (modules g m))
          \<and> events g' = events g \<and> reset g' = reset g"
    by (simp add: dt_bauhaus_toggle_from_params_def Let_def split_def toolkit_defs
        split: option.splits)
qed

text \<open>
  At the example: the integer field holds -1, which read as a \<open>float\<close> is a NaN, so that
  the conversion of line 168 is one C leaves undefined; the slider binder constructs its
  slider and the field still holds -1.
\<close>

theorem binders_only_construct_witness:
  "sint (0xFFFFFFFF :: 32 word) = - 1
   \<and> float_to_int (float_of_bits (load_field (store_field (0, 16) 0xFFFFFFFF example_gui)
                                     (0, 16))) = None
   \<and> (\<exists>w g'. dt_bauhaus_slider_from_params 0 ''iterations''
                 (store_field (0, 16) 0xFFFFFFFF example_gui) = (Some w, g')
        \<and> load_field g' (0, 16) = 0xFFFFFFFF \<and> events g' = [] \<and> reset g' = 0)
   \<and> load_field (snd (dt_bauhaus_combobox_from_params 0 ''mode'' example_gui)) (0, 16) = 5
   \<and> events (snd (dt_bauhaus_combobox_from_params 0 ''mode'' example_gui)) = []
   \<and> load_field (snd (dt_bauhaus_toggle_from_params 0 ''enabled'' example_gui)) (0, 16) = 5
   \<and> events (snd (dt_bauhaus_toggle_from_params 0 ''enabled'' example_gui)) = []"
proof -
  have minus_one: "sint (0xFFFFFFFF :: 32 word) = - 1"
    by simp
  have nan: "float_to_int (float_of_bits 0xFFFFFFFF) = None"
    by (simp add: float_of_bits_def float_to_int_def Let_def)
  have f: "get_f (modules (store_field (0, 16) 0xFFFFFFFF example_gui) 0) ''iterations''
             = Some ((example_field DT_INTROSPECTION_TYPE_INT 16 ''iterations'')
                       \<lparr>Int_Min := 0, Int_Max := 10\<rparr>)"
    by (simp add: store_field_def)
  obtain w g' where r: "dt_bauhaus_slider_from_params 0 ''iterations''
                          (store_field (0, 16) 0xFFFFFFFF example_gui) = (Some w, g')"
    using slider_int_result [OF f] by (auto simp add: example_field_def)
  have held: "params (modules example_gui 0) 16 = 5"
    by (simp add: example_gui_def example_module_def)
  show ?thesis
    using binders_only_construct [where self = 0 and param = "''iterations''"
        and g = "store_field (0, 16) 0xFFFFFFFF example_gui"]
      binders_only_construct [where self = 0 and param = "''mode''" and g = example_gui]
      binders_only_construct [where self = 0 and param = "''enabled''" and g = example_gui]
      r held nan minus_one
    by (simp add: split_def load_field_def store_field_def)
qed

section \<open>The module's container\<close>

text \<open>
  Every binder call ends by packing the pointer it returns into the module's container,
  in a state that differs from the start state by newly allocated controls.
\<close>

lemma bind_control_shape:
  assumes "bind_control c self g = (ctl, g1)"
  shows "\<exists>gpre. g1 = pack_into_module_widget self ctl gpre \<and> allocated_from g gpre"
proof (cases c)
  case (Bind_slider param)
  with assms have r: "dt_bauhaus_slider_from_params self param g = (ctl, g1)" by simp
  show ?thesis
  proof (cases "get_f (modules g self) param")
    case None
    with r show ?thesis
      by (auto simp add: dt_bauhaus_slider_from_params_def Let_def split_def toolkit_defs
          allocated_from_def intro!: exI)
  next
    case (Some f)
    consider (fl) "type (header f) = DT_INTROSPECTION_TYPE_FLOAT"
      | (i) "type (header f) = DT_INTROSPECTION_TYPE_INT"
      | (other) "type (header f) \<noteq> DT_INTROSPECTION_TYPE_FLOAT"
                "type (header f) \<noteq> DT_INTROSPECTION_TYPE_INT"
      by blast
    then show ?thesis
    proof cases
      case fl
      with r Some show ?thesis
        by (auto simp add: dt_bauhaus_slider_from_params_def Let_def split_def toolkit_defs
            allocated_from_def intro!: exI)
    next
      case i
      with r Some show ?thesis
        by (auto simp add: dt_bauhaus_slider_from_params_def Let_def split_def toolkit_defs
            allocated_from_def intro!: exI)
    next
      case other
      with r Some show ?thesis
        by (auto simp add: dt_bauhaus_slider_from_params_def Let_def split_def toolkit_defs
            allocated_from_def intro!: exI)
    qed
  qed
next
  case (Bind_combobox param)
  with assms show ?thesis
    by (auto simp add: dt_bauhaus_combobox_from_params_def Let_def split_def toolkit_defs
        add_enum_entries_eq allocated_from_def split: option.splits intro!: exI)
next
  case (Bind_toggle param)
  with assms show ?thesis
    by (auto simp add: dt_bauhaus_toggle_from_params_def Let_def split_def toolkit_defs
        allocated_from_def split: option.splits intro!: exI)
qed

lemma pack_existing_container:
  assumes "allocated_from g gpre" and "widget (modules g self) = Some b" and "b < next_widget g"
  shows "widget (modules (pack_into_module_widget self ctl gpre) self) = Some b"
    and "packed (widgets (pack_into_module_widget self ctl gpre) b) = packed (widgets g b) @ [ctl]"
    and "kind (widgets (pack_into_module_widget self ctl gpre) b) = kind (widgets g b)"
    and "next_widget g \<le> next_widget (pack_into_module_widget self ctl gpre)"
  using assms
  by (simp_all add: allocated_from_def pack_into_module_widget_def gtk_box_pack_start_def)

lemma pack_new_container:
  assumes "allocated_from g gpre" and "widget (modules g self) = None"
  shows "widget (modules (pack_into_module_widget self ctl gpre) self) = Some (next_widget gpre)"
    and "packed (widgets (pack_into_module_widget self ctl gpre) (next_widget gpre)) = [ctl]"
    and "kind (widgets (pack_into_module_widget self ctl gpre) (next_widget gpre)) = Box"
    and "next_widget (pack_into_module_widget self ctl gpre) = Suc (next_widget gpre)"
  using assms
  by (simp_all add: allocated_from_def pack_into_module_widget_def gtk_box_pack_start_def
      gtk_box_new_def split_def Let_def blank_widget_def)

lemma allocated_from_next:
  assumes "allocated_from g gpre"
  shows "next_widget g \<le> next_widget gpre"
  using assms by (simp add: allocated_from_def)

text \<open>
  A container that exists is kept by every sequence of binder calls, and the pointers the
  calls hand to \<open>gtk_box_pack_start\<close> on it are the pointers they return, null ones
  included, in call order.
\<close>

lemma bind_controls_existing_container:
  assumes "bind_controls cs self g = (trace, g')"
    and "widget (modules g self) = Some b" and "b < next_widget g"
  shows "length trace = length cs \<and> (\<forall>x \<in> set trace. snd x = Some b)
       \<and> widget (modules g' self) = Some b
       \<and> packed (widgets g' b) = packed (widgets g b) @ map fst trace
       \<and> kind (widgets g' b) = kind (widgets g b)"
  using assms
proof (induction cs arbitrary: g trace)
  case Nil
  then show ?case by simp
next
  case (Cons c cs)
  obtain ctl g1 where step: "bind_control c self g = (ctl, g1)"
    by (cases "bind_control c self g")
  obtain rest g2 where rest0: "bind_controls cs self g1 = (rest, g2)"
    by (cases "bind_controls cs self g1")
  from Cons.prems(1) step rest0 have
    rest: "bind_controls cs self g1 = (rest, g')" and
    trace: "trace = (ctl, widget (modules g1 self)) # rest"
    by simp_all
  from bind_control_shape [OF step] obtain gpre where
    g1: "g1 = pack_into_module_widget self ctl gpre" and al: "allocated_from g gpre"
    by blast
  note p = pack_existing_container [OF al Cons.prems(2) Cons.prems(3), of ctl, folded g1]
  have b1: "b < next_widget g1" using p(4) Cons.prems(3) by simp
  from Cons.IH [OF rest p(1) b1] p trace show ?case by simp
qed

text \<open>
  A container that is absent is created by the first call of a sequence, as a fresh box,
  and kept by the calls after it.
\<close>

lemma bind_controls_new_container:
  assumes "bind_controls (c # cs) self g = (trace, g')"
    and "widget (modules g self) = None"
  shows "\<exists>box. next_widget g \<le> box \<and> kind (widgets g' box) = Box
           \<and> length trace = Suc (length cs)
           \<and> (\<forall>x \<in> set trace. snd x = Some box)
           \<and> widget (modules g' self) = Some box
           \<and> packed (widgets g' box) = map fst trace"
proof -
  obtain ctl g1 where step: "bind_control c self g = (ctl, g1)"
    by (cases "bind_control c self g")
  obtain rest g2 where rest0: "bind_controls cs self g1 = (rest, g2)"
    by (cases "bind_controls cs self g1")
  from assms(1) step rest0 have
    rest: "bind_controls cs self g1 = (rest, g')" and
    trace: "trace = (ctl, widget (modules g1 self)) # rest"
    by simp_all
  from bind_control_shape [OF step] obtain gpre where
    g1: "g1 = pack_into_module_widget self ctl gpre" and al: "allocated_from g gpre"
    by blast
  define box where "box = next_widget gpre"
  note p = pack_new_container [OF al assms(2), of ctl, folded g1 box_def]
  have fresh: "next_widget g \<le> box"
    using allocated_from_next [OF al] by (simp add: box_def)
  have "box < next_widget g1" using p(4) by simp
  from bind_controls_existing_container [OF rest p(1) this]
  have "length rest = length cs" "\<forall>x \<in> set rest. snd x = Some box"
    "widget (modules g' self) = Some box"
    "packed (widgets g' box) = packed (widgets g1 box) @ map fst rest"
    "kind (widgets g' box) = kind (widgets g1 box)"
    by simp_all
  with p trace fresh have
    "next_widget g \<le> box \<and> kind (widgets g' box) = Box
       \<and> length trace = Suc (length cs)
       \<and> (\<forall>x \<in> set trace. snd x = Some box) \<and> widget (modules g' self) = Some box
       \<and> packed (widgets g' box) = map fst trace"
    by simp
  then show ?thesis by blast
qed

text \<open>
  C9. On the module of the example, which has no container yet, the slider binder is
  called for the boolean field and then the toggle binder for the same field. The first
  call creates the container, box 0, and the second call keeps it and packs its toggle,
  control 1, into it. The first call, however, returns a null pointer and hands that null
  pointer to \<open>gtk_box_pack_start\<close>: it has no control to append.
\<close>

theorem container_null_control_evaluation:
  "widget (modules example_gui 0) = None
   \<and> get_f (modules example_gui 0) ''enabled''
     = Some (example_field DT_INTROSPECTION_TYPE_BOOL 20 ''enabled'')
   \<and> (\<exists>g'. bind_controls [Bind_slider ''enabled'', Bind_toggle ''enabled''] 0 example_gui
             = ([(None, Some 0), (Some 1, Some 0)], g')
         \<and> kind (widgets g' 0) = Box
         \<and> kind (widgets g' 1) = Check_button
         \<and> widget (modules g' 0) = Some 0
         \<and> packed (widgets g' 0) = [None, Some 1])"
proof -
  have "fst (bind_controls [Bind_slider ''enabled'', Bind_toggle ''enabled''] 0 example_gui)
          = [(None, Some 0), (Some 1, Some 0)]"
    by (simp add: dt_bauhaus_slider_from_params_def dt_bauhaus_toggle_from_params_def
        Let_def split_def toolkit_defs pack_into_module_widget_def example_field_def)
  then obtain g' where run:
    "bind_controls [Bind_slider ''enabled'', Bind_toggle ''enabled''] 0 example_gui
       = ([(None, Some 0), (Some 1, Some 0)], g')"
    by (cases "bind_controls [Bind_slider ''enabled'', Bind_toggle ''enabled''] 0 example_gui")
      auto
  have none: "widget (modules example_gui 0) = None" by simp
  from bind_controls_new_container [OF run none]
  have box: "kind (widgets g' 0) = Box \<and> widget (modules g' 0) = Some 0
          \<and> packed (widgets g' 0) = [None, Some 1]"
    by auto
  have "kind (widgets (snd (bind_controls [Bind_slider ''enabled'', Bind_toggle ''enabled'']
                              0 example_gui)) 1) = Check_button"
    by (simp add: dt_bauhaus_slider_from_params_def dt_bauhaus_toggle_from_params_def
        Let_def split_def toolkit_defs pack_into_module_widget_def example_field_def
        blank_widget_def)
  then have "kind (widgets g' 1) = Check_button" using run by simp
  with box run show ?thesis by simp
qed

end
